theory Spec2Isabelle
  imports Main "HOL-Library.Product_Lexorder"
begin

section \<open>Data model of \<^verbatim>\<open>src/main.py\<close>\<close>

text \<open>
  The two string enums. \<open>TaskStatus_value\<close> and \<open>TaskPriority_value\<close> are the members'
  \<^verbatim>\<open>.value\<close>; the member lists are in declaration order, the order in which
  \<^verbatim>\<open>for s in TaskStatus\<close> iterates.
\<close>

datatype TaskStatus = PENDING | IN_PROGRESS | COMPLETED | CANCELLED

datatype TaskPriority = LOW | MEDIUM | HIGH | URGENT

fun TaskStatus_value :: "TaskStatus \<Rightarrow> string" where
  "TaskStatus_value PENDING = ''pending''"
| "TaskStatus_value IN_PROGRESS = ''in-progress''"
| "TaskStatus_value COMPLETED = ''completed''"
| "TaskStatus_value CANCELLED = ''cancelled''"

fun TaskPriority_value :: "TaskPriority \<Rightarrow> string" where
  "TaskPriority_value LOW = ''low''"
| "TaskPriority_value MEDIUM = ''medium''"
| "TaskPriority_value HIGH = ''high''"
| "TaskPriority_value URGENT = ''urgent''"

definition TaskStatus_members :: "TaskStatus list" where
  "TaskStatus_members = [PENDING, IN_PROGRESS, COMPLETED, CANCELLED]"

definition TaskPriority_members :: "TaskPriority list" where
  "TaskPriority_members = [LOW, MEDIUM, HIGH, URGENT]"

text \<open>
  A naive \<^verbatim>\<open>datetime\<close> is (year, month, day, hour, minute, second, microsecond);
  Python compares two of them chronologically, which is the lexicographic order of the
  tuples.
\<close>

type_synonym datetime = "nat \<times> nat \<times> nat \<times> nat \<times> nat \<times> nat \<times> nat"

text \<open>
  \<^verbatim>\<open>class Task\<close>. The class declares \<^verbatim>\<open>title: str\<close>, \<^verbatim>\<open>status: TaskStatus\<close> and
  \<^verbatim>\<open>priority: TaskPriority\<close>, but \<^verbatim>\<open>update_task\<close> builds the stored object with
  \<^verbatim>\<open>model_copy(update=...)\<close>, which does not validate, so at run time each of the
  three can hold \<^verbatim>\<open>None\<close>. The record therefore carries them as options;
  \<open>typed_Task\<close> below is the declared typing. The field \<^verbatim>\<open>id\<close> is \<open>Task_id\<close> here.
\<close>

record Task =
  Task_id :: string
  title :: "string option"
  description :: "string option"
  status :: "TaskStatus option"
  priority :: "TaskPriority option"
  due_date :: "datetime option"
  created_at :: datetime
  updated_at :: datetime

text \<open>\<^verbatim>\<open>class TaskCreate\<close>, as a validated object.\<close>

record TaskCreate =
  c_title :: string
  c_description :: "string option"
  c_status :: TaskStatus
  c_priority :: TaskPriority
  c_due_date :: "datetime option"

text \<open>
  \<^verbatim>\<open>class TaskUpdate\<close>, as a validated object. Every field is \<^verbatim>\<open>Optional\<close> with
  default \<^verbatim>\<open>None\<close>, and pydantic records which fields the request set: a field is
  \<open>None\<close> when the request left it out (it is not in \<^verbatim>\<open>model_fields_set\<close>),
  \<open>Some None\<close> when the request gave \<^verbatim>\<open>null\<close>, and \<open>Some (Some v)\<close> when it gave a value.
\<close>

record TaskUpdate =
  u_title :: "string option option"
  u_description :: "string option option"
  u_status :: "TaskStatus option option"
  u_priority :: "TaskPriority option option"
  u_due_date :: "datetime option option"

record TaskResponse =
  tr_success :: bool
  tr_message :: string
  tr_data :: Task

record TaskListResponse =
  tl_success :: bool
  tl_count :: int
  tl_data :: "Task list"

text \<open>The dictionary \<^verbatim>\<open>delete_task\<close> returns.\<close>

record DeleteResponse =
  d_success :: bool
  d_message :: string
  d_deleted_id :: string

text \<open>The dictionary \<^verbatim>\<open>get_statistics\<close> returns; the inner dictionaries keep insertion order.\<close>

record Statistics =
  total_tasks :: int
  by_status :: "(string \<times> int) list"
  by_priority :: "(string \<times> int) list"

text \<open>
  The dictionary \<^verbatim>\<open>health_check\<close> returns. \<open>h_timestamp\<close> is the clock reading whose
  \<^verbatim>\<open>isoformat()\<close> the source returns; the rendering is left out.
\<close>

record Health =
  h_status :: string
  h_timestamp :: datetime
  h_version :: string
  h_total_tasks :: int

text \<open>
  What a request can end in instead of a response: FastAPI's 422 for a query parameter or
  a body that fails validation, the handlers' \<^verbatim>\<open>HTTPException(status_code, detail)\<close>,
  and the two Python exceptions a handler's body can raise.
\<close>

datatype error =
    RequestValidationError
  | HTTPException nat string
  | AttributeError
  | KeyError

section \<open>Python primitives\<close>

subsection \<open>Dictionaries\<close>

text \<open>
  A \<^verbatim>\<open>dict\<close> keeps insertion order, and \<^verbatim>\<open>tasks_db.values()\<close> is read in that order, so
  a dictionary is an association list: assigning to a present key keeps its position,
  assigning to a new key appends, \<^verbatim>\<open>pop\<close> removes the entry.
\<close>

type_synonym ('k, 'v) dict = "('k \<times> 'v) list"

definition dict_contains :: "'k \<Rightarrow> ('k, 'v) dict \<Rightarrow> bool" where
  "dict_contains k d = (k \<in> set (map fst d))"

definition dict_get :: "('k, 'v) dict \<Rightarrow> 'k \<Rightarrow> error + 'v" where
  "dict_get d k = (case map_of d k of None \<Rightarrow> Inl KeyError | Some v \<Rightarrow> Inr v)"

fun dict_set :: "'k \<Rightarrow> 'v \<Rightarrow> ('k, 'v) dict \<Rightarrow> ('k, 'v) dict" where
  "dict_set k v [] = [(k, v)]"
| "dict_set k v (p # ps) = (if fst p = k then (k, v) # ps else p # dict_set k v ps)"

definition dict_pop :: "'k \<Rightarrow> ('k, 'v) dict \<Rightarrow> ('k, 'v) dict" where
  "dict_pop k d = filter (\<lambda>p. fst p \<noteq> k) d"

definition dict_values :: "('k, 'v) dict \<Rightarrow> 'v list" where
  "dict_values d = map snd d"

definition dict_len :: "('k, 'v) dict \<Rightarrow> int" where
  "dict_len d = int (length d)"

subsection \<open>Strings and slices\<close>

text \<open>
  A \<^verbatim>\<open>str\<close> is the list of its characters, and its length their number.
  \<^verbatim>\<open>str.lower()\<close> is Python's own: a function of the whole string, following the
  Unicode case mappings, and not character by character in general. The functions that
  call it take it as their argument \<open>str_lower\<close>, so nothing proved about them rests on
  what it does to any string, except where a lemma names what it needs.
\<close>

text \<open>\<^verbatim>\<open>a in b\<close> on two strings: \<open>a\<close> starts at some position of \<open>b\<close>.\<close>

definition startswith :: "string \<Rightarrow> string \<Rightarrow> bool" where
  "startswith b a = (take (length a) b = a)"

fun str_in :: "string \<Rightarrow> string \<Rightarrow> bool" where
  "str_in a [] = (a = [])"
| "str_in a (c # cs) = (startswith (c # cs) a \<or> str_in a cs)"

text \<open>
  \<^verbatim>\<open>xs[a:b]\<close>: a negative bound counts from the end, and both bounds are clamped to
  the list.
\<close>

definition slice_bound :: "int \<Rightarrow> int \<Rightarrow> int" where
  "slice_bound n i = (if i < 0 then max (i + n) 0 else min i n)"

definition py_slice :: "'a list \<Rightarrow> int \<Rightarrow> int \<Rightarrow> 'a list" where
  "py_slice xs a b =
     (let n = int (length xs); a' = slice_bound n a; b' = slice_bound n b
      in take (nat (b' - a')) (drop (nat a') xs))"

text \<open>The f-string of the three 404 responses.\<close>

definition not_found_detail :: "string \<Rightarrow> string" where
  "not_found_detail task_id = ''Task with ID '' @ [CHR 0x27] @ task_id @ [CHR 0x27] @ '' not found''"

section \<open>The store and its seed\<close>

type_synonym tasks_db = "(string, Task) dict"

definition sample_tasks :: "Task list" where
  "sample_tasks =
    [\<lparr>Task_id = ''task-001'',
      title = Some ''Setup Development Environment'',
      description = Some ''Install Python, FastAPI, and configure IDE'',
      status = Some COMPLETED,
      priority = Some HIGH,
      due_date = Some (2025, 1, 15, 10, 0, 0, 0),
      created_at = (2025, 1, 10, 9, 0, 0, 0),
      updated_at = (2025, 1, 14, 15, 30, 0, 0)\<rparr>,
     \<lparr>Task_id = ''task-002'',
      title = Some ''Create API Endpoints'',
      description = Some ''Implement CRUD operations for task management'',
      status = Some IN_PROGRESS,
      priority = Some HIGH,
      due_date = Some (2025, 1, 20, 18, 0, 0, 0),
      created_at = (2025, 1, 12, 10, 0, 0, 0),
      updated_at = (2025, 1, 13, 11, 0, 0, 0)\<rparr>,
     \<lparr>Task_id = ''task-003'',
      title = Some ''Write Unit Tests'',
      description = Some ''Create comprehensive test suite using pytest'',
      status = Some PENDING,
      priority = Some MEDIUM,
      due_date = Some (2025, 1, 25, 17, 0, 0, 0),
      created_at = (2025, 1, 13, 8, 0, 0, 0),
      updated_at = (2025, 1, 13, 8, 0, 0, 0)\<rparr>]"

text \<open>\<^verbatim>\<open>for task_data in sample_tasks: tasks_db[task_data["id"]] = Task(**task_data)\<close>\<close>

definition init_db :: tasks_db where
  "init_db = foldl (\<lambda>db t. dict_set (Task_id t) t db) [] sample_tasks"

section \<open>Request bodies and their validation\<close>

text \<open>
  A field of a JSON request body, as pydantic sees it when it validates the body against
  \<^verbatim>\<open>TaskCreate\<close> or \<^verbatim>\<open>TaskUpdate\<close>: the key is \<open>Absent\<close>, or its value is JSON
  \<open>Null\<close>, or a value \<open>Val v\<close> of the JSON kind the field reads (a string for
  \<^verbatim>\<open>title\<close>, \<^verbatim>\<open>description\<close>, \<^verbatim>\<open>status\<close> and \<^verbatim>\<open>priority\<close>; an input that parses as a
  datetime, given by the datetime it parses to, for \<^verbatim>\<open>due_date\<close>), or any other JSON
  value, \<open>Wrong\<close> (a number for \<^verbatim>\<open>title\<close>, the string \<^verbatim>\<open>"not-a-date"\<close> for
  \<^verbatim>\<open>due_date\<close>), which pydantic rejects for the field's type.
\<close>

datatype 'a wire = Absent | Null | Wrong | Val 'a

record body =
  b_title :: "string wire"
  b_description :: "string wire"
  b_status :: "string wire"
  b_priority :: "string wire"
  b_due_date :: "datetime wire"

text \<open>Enum validation: the member whose value is the string, if there is one.\<close>

definition TaskStatus_of_value :: "string \<Rightarrow> TaskStatus option" where
  "TaskStatus_of_value s = find (\<lambda>m. TaskStatus_value m = s) TaskStatus_members"

definition TaskPriority_of_value :: "string \<Rightarrow> TaskPriority option" where
  "TaskPriority_of_value s = find (\<lambda>m. TaskPriority_value m = s) TaskPriority_members"

text \<open>
  The fields of \<^verbatim>\<open>TaskCreate\<close>, one validator each, \<open>None\<close> for a validation error:
  \<^verbatim>\<open>title: str = Field(..., min_length=1, max_length=200)\<close> is required;
  \<^verbatim>\<open>description: Optional[str] = Field(None, max_length=1000)\<close>;
  \<^verbatim>\<open>status\<close> and \<^verbatim>\<open>priority\<close> have a default and are not \<^verbatim>\<open>Optional\<close>;
  \<^verbatim>\<open>due_date: Optional[datetime] = Field(None)\<close>.
\<close>

fun create_title :: "string wire \<Rightarrow> string option" where
  "create_title (Val s) = (if 1 \<le> length s \<and> length s \<le> 200 then Some s else None)"
| "create_title _ = None"

fun create_description :: "string wire \<Rightarrow> string option option" where
  "create_description Absent = Some None"
| "create_description Null = Some None"
| "create_description Wrong = None"
| "create_description (Val s) = (if length s \<le> 1000 then Some (Some s) else None)"

fun create_status :: "string wire \<Rightarrow> TaskStatus option" where
  "create_status Absent = Some PENDING"
| "create_status (Val s) = TaskStatus_of_value s"
| "create_status _ = None"

fun create_priority :: "string wire \<Rightarrow> TaskPriority option" where
  "create_priority Absent = Some MEDIUM"
| "create_priority (Val s) = TaskPriority_of_value s"
| "create_priority _ = None"

fun create_due_date :: "datetime wire \<Rightarrow> datetime option option" where
  "create_due_date Absent = Some None"
| "create_due_date Null = Some None"
| "create_due_date Wrong = None"
| "create_due_date (Val d) = Some (Some d)"

definition validate_TaskCreate :: "body \<Rightarrow> error + TaskCreate" where
  "validate_TaskCreate b =
     (case (create_title (b_title b), create_description (b_description b),
            create_status (b_status b), create_priority (b_priority b),
            create_due_date (b_due_date b)) of
        (Some t, Some d, Some s, Some p, Some dd) \<Rightarrow>
          Inr \<lparr>c_title = t, c_description = d, c_status = s, c_priority = p, c_due_date = dd\<rparr>
      | _ \<Rightarrow> Inl RequestValidationError)"

text \<open>
  The fields of \<^verbatim>\<open>TaskUpdate\<close>: all \<^verbatim>\<open>Optional\<close> with default \<^verbatim>\<open>None\<close>, so an
  absent key leaves the field unset and \<^verbatim>\<open>null\<close> sets it to \<^verbatim>\<open>None\<close>; the length
  bounds and the enums apply to a value that is not \<^verbatim>\<open>null\<close>.
\<close>

fun update_title :: "string wire \<Rightarrow> string option option option" where
  "update_title Absent = Some None"
| "update_title Null = Some (Some None)"
| "update_title Wrong = None"
| "update_title (Val s) =
     (if 1 \<le> length s \<and> length s \<le> 200 then Some (Some (Some s)) else None)"

fun update_description :: "string wire \<Rightarrow> string option option option" where
  "update_description Absent = Some None"
| "update_description Null = Some (Some None)"
| "update_description Wrong = None"
| "update_description (Val s) = (if length s \<le> 1000 then Some (Some (Some s)) else None)"

fun update_status :: "string wire \<Rightarrow> TaskStatus option option option" where
  "update_status Absent = Some None"
| "update_status Null = Some (Some None)"
| "update_status Wrong = None"
| "update_status (Val s) =
     (case TaskStatus_of_value s of None \<Rightarrow> None | Some m \<Rightarrow> Some (Some (Some m)))"

fun update_priority :: "string wire \<Rightarrow> TaskPriority option option option" where
  "update_priority Absent = Some None"
| "update_priority Null = Some (Some None)"
| "update_priority Wrong = None"
| "update_priority (Val s) =
     (case TaskPriority_of_value s of None \<Rightarrow> None | Some m \<Rightarrow> Some (Some (Some m)))"

fun update_due_date :: "datetime wire \<Rightarrow> datetime option option option" where
  "update_due_date Absent = Some None"
| "update_due_date Null = Some (Some None)"
| "update_due_date Wrong = None"
| "update_due_date (Val d) = Some (Some (Some d))"

definition validate_TaskUpdate :: "body \<Rightarrow> error + TaskUpdate" where
  "validate_TaskUpdate b =
     (case (update_title (b_title b), update_description (b_description b),
            update_status (b_status b), update_priority (b_priority b),
            update_due_date (b_due_date b)) of
        (Some t, Some d, Some s, Some p, Some dd) \<Rightarrow>
          Inr \<lparr>u_title = t, u_description = d, u_status = s, u_priority = p, u_due_date = dd\<rparr>
      | _ \<Rightarrow> Inl RequestValidationError)"

section \<open>The endpoints\<close>

text \<open>
  A handler takes the store and returns its result with the store it leaves. The clock
  reading \<^verbatim>\<open>datetime.now()\<close> and the 32 hexadecimal digits of \<^verbatim>\<open>uuid.uuid4().hex\<close> are
  arguments.
\<close>

definition health_check :: "tasks_db \<Rightarrow> datetime \<Rightarrow> Health \<times> tasks_db" where
  "health_check db now =
     (\<lparr>h_status = ''healthy'', h_timestamp = now, h_version = ''1.0.0'',
       h_total_tasks = dict_len db\<rparr>, db)"

text \<open>
  The search comprehension of \<^verbatim>\<open>get_tasks\<close>. \<^verbatim>\<open>t.title.lower()\<close> raises
  \<^verbatim>\<open>AttributeError\<close> on a title that is \<^verbatim>\<open>None\<close>; a description that is \<^verbatim>\<open>None\<close> or
  empty is falsy and is not searched.
\<close>

definition search_keeps :: "(string \<Rightarrow> string) \<Rightarrow> string \<Rightarrow> Task \<Rightarrow> error + bool" where
  "search_keeps str_lower search_lower t =
     (case title t of
        None \<Rightarrow> Inl AttributeError
      | Some ti \<Rightarrow>
          Inr (str_in search_lower (str_lower ti) \<or>
               (case description t of
                  None \<Rightarrow> False
                | Some d \<Rightarrow> d \<noteq> [] \<and> str_in search_lower (str_lower d))))"

fun search_filter ::
  "(string \<Rightarrow> string) \<Rightarrow> string \<Rightarrow> Task list \<Rightarrow> error + Task list" where
  "search_filter str_lower search_lower [] = Inr []"
| "search_filter str_lower search_lower (t # ts) =
     (case search_keeps str_lower search_lower t of
        Inl e \<Rightarrow> Inl e
      | Inr keep \<Rightarrow>
          (case search_filter str_lower search_lower ts of
             Inl e \<Rightarrow> Inl e
           | Inr r \<Rightarrow> Inr (if keep then t # r else r)))"

text \<open>
  \<^verbatim>\<open>get_tasks\<close>. The bounds of \<^verbatim>\<open>limit\<close> and \<^verbatim>\<open>offset\<close> are those of their
  \<^verbatim>\<open>Query(...)\<close>; the defaults 100 and 0 are the caller's. Every member of the two enums
  is a non-empty string, hence truthy, so \<^verbatim>\<open>if status:\<close> is the test for a given
  status; \<^verbatim>\<open>if search:\<close> is false for the empty string as well as for \<^verbatim>\<open>None\<close>.
  \<open>str_lower\<close> is \<^verbatim>\<open>str.lower\<close>.
\<close>

definition get_tasks ::
  "(string \<Rightarrow> string) \<Rightarrow> tasks_db \<Rightarrow> TaskStatus option \<Rightarrow> TaskPriority option
     \<Rightarrow> string option \<Rightarrow> int \<Rightarrow> int \<Rightarrow> (error + TaskListResponse) \<times> tasks_db" where
  "get_tasks str_lower db status_q priority_q search limit offset =
     (if limit < 1 \<or> 100 < limit \<or> offset < 0 then (Inl RequestValidationError, db)
      else
        let filtered_tasks = dict_values db;
            filtered_tasks =
              (case status_q of
                 None \<Rightarrow> filtered_tasks
               | Some s \<Rightarrow> filter (\<lambda>t. status t = Some s) filtered_tasks);
            filtered_tasks =
              (case priority_q of
                 None \<Rightarrow> filtered_tasks
               | Some p \<Rightarrow> filter (\<lambda>t. priority t = Some p) filtered_tasks);
            searched =
              (case search of
                 None \<Rightarrow> Inr filtered_tasks
               | Some s \<Rightarrow>
                   if s = [] then Inr filtered_tasks
                   else search_filter str_lower (str_lower s) filtered_tasks)
        in case searched of
             Inl e \<Rightarrow> (Inl e, db)
           | Inr filtered_tasks \<Rightarrow>
               let paginated_tasks = py_slice filtered_tasks offset (offset + limit)
               in (Inr \<lparr>tl_success = True, tl_count = int (length paginated_tasks),
                        tl_data = paginated_tasks\<rparr>, db))"

text \<open>The listing endpoint with its query parameters optional: \<^verbatim>\<open>limit\<close> defaults to 100, \<^verbatim>\<open>offset\<close> to 0.\<close>

definition get_tasks_query ::
  "(string \<Rightarrow> string) \<Rightarrow> tasks_db \<Rightarrow> TaskStatus option \<Rightarrow> TaskPriority option
     \<Rightarrow> string option \<Rightarrow> int option \<Rightarrow> int option
     \<Rightarrow> (error + TaskListResponse) \<times> tasks_db" where
  "get_tasks_query str_lower db status_q priority_q search limit_q offset_q =
     get_tasks str_lower db status_q priority_q search
       (case limit_q of None \<Rightarrow> 100 | Some l \<Rightarrow> l)
       (case offset_q of None \<Rightarrow> 0 | Some off \<Rightarrow> off)"

definition get_task :: "tasks_db \<Rightarrow> string \<Rightarrow> (error + TaskResponse) \<times> tasks_db" where
  "get_task db task_id =
     (if \<not> dict_contains task_id db
      then (Inl (HTTPException 404 (not_found_detail task_id)), db)
      else case dict_get db task_id of
             Inl e \<Rightarrow> (Inl e, db)
           | Inr t \<Rightarrow>
               (Inr \<lparr>tr_success = True, tr_message = ''Task retrieved successfully'',
                     tr_data = t\<rparr>, db))"

text \<open>
  \<^verbatim>\<open>create_task\<close>, on a validated \<^verbatim>\<open>TaskCreate\<close>; \<open>uuid_hex\<close> is
  \<^verbatim>\<open>uuid.uuid4().hex\<close>. The assignment \<^verbatim>\<open>tasks_db[task_id] = new_task\<close> is made without a
  test for the key.
\<close>

definition create_task ::
  "tasks_db \<Rightarrow> datetime \<Rightarrow> string \<Rightarrow> TaskCreate \<Rightarrow> (error + TaskResponse) \<times> tasks_db" where
  "create_task db now uuid_hex task =
     (let task_id = ''task-'' @ take 8 uuid_hex;
          new_task = \<lparr>Task_id = task_id, title = Some (c_title task),
                      description = c_description task, status = Some (c_status task),
                      priority = Some (c_priority task), due_date = c_due_date task,
                      created_at = now, updated_at = now\<rparr>
      in (Inr \<lparr>tr_success = True, tr_message = ''Task created successfully'',
               tr_data = new_task\<rparr>,
          dict_set task_id new_task db))"

text \<open>
  \<^verbatim>\<open>existing_task.model_copy(update={**task_update.model_dump(exclude_unset=True),
  "updated_at": datetime.now()})\<close>: every field the request set replaces the task's, with
  no validation, and \<^verbatim>\<open>updated_at\<close> is replaced.
\<close>

definition model_copy :: "Task \<Rightarrow> TaskUpdate \<Rightarrow> datetime \<Rightarrow> Task" where
  "model_copy existing_task task_update now =
     existing_task
       \<lparr>title := (case u_title task_update of None \<Rightarrow> title existing_task | Some v \<Rightarrow> v),
        description :=
          (case u_description task_update of None \<Rightarrow> description existing_task | Some v \<Rightarrow> v),
        status := (case u_status task_update of None \<Rightarrow> status existing_task | Some v \<Rightarrow> v),
        priority :=
          (case u_priority task_update of None \<Rightarrow> priority existing_task | Some v \<Rightarrow> v),
        due_date :=
          (case u_due_date task_update of None \<Rightarrow> due_date existing_task | Some v \<Rightarrow> v),
        updated_at := now\<rparr>"

definition update_task ::
  "tasks_db \<Rightarrow> datetime \<Rightarrow> string \<Rightarrow> TaskUpdate \<Rightarrow> (error + TaskResponse) \<times> tasks_db" where
  "update_task db now task_id task_update =
     (if \<not> dict_contains task_id db
      then (Inl (HTTPException 404 (not_found_detail task_id)), db)
      else case dict_get db task_id of
             Inl e \<Rightarrow> (Inl e, db)
           | Inr existing_task \<Rightarrow>
               let updated_task = model_copy existing_task task_update now
               in (Inr \<lparr>tr_success = True, tr_message = ''Task updated successfully'',
                        tr_data = updated_task\<rparr>,
                   dict_set task_id updated_task db))"

text \<open>The f-string \<^verbatim>\<open>{deleted_task.title}\<close> renders a title that is \<^verbatim>\<open>None\<close> as \<^verbatim>\<open>None\<close>.\<close>

definition format_title :: "string option \<Rightarrow> string" where
  "format_title t = (case t of None \<Rightarrow> ''None'' | Some s \<Rightarrow> s)"

definition delete_task :: "tasks_db \<Rightarrow> string \<Rightarrow> (error + DeleteResponse) \<times> tasks_db" where
  "delete_task db task_id =
     (if \<not> dict_contains task_id db
      then (Inl (HTTPException 404 (not_found_detail task_id)), db)
      else case dict_get db task_id of
             Inl e \<Rightarrow> (Inl e, db)
           | Inr deleted_task \<Rightarrow>
               (Inr \<lparr>d_success = True,
                     d_message = ''Task '' @ [CHR 0x27] @ format_title (title deleted_task)
                                 @ [CHR 0x27] @ '' deleted successfully'',
                     d_deleted_id = task_id\<rparr>,
                dict_pop task_id db))"

text \<open>
  \<^verbatim>\<open>get_statistics\<close>: one dictionary entry per enum member, in declaration order, each
  the number of tasks whose field equals the member.
\<close>

definition get_statistics :: "tasks_db \<Rightarrow> Statistics \<times> tasks_db" where
  "get_statistics db =
     (let tasks = dict_values db;
          status_counts =
            foldl (\<lambda>d s. dict_set (TaskStatus_value s)
                            (int (length (filter (\<lambda>t. status t = Some s) tasks))) d)
              [] TaskStatus_members;
          priority_counts =
            foldl (\<lambda>d p. dict_set (TaskPriority_value p)
                            (int (length (filter (\<lambda>t. priority t = Some p) tasks))) d)
              [] TaskPriority_members
      in (\<lparr>total_tasks = int (length tasks), by_status = status_counts,
           by_priority = priority_counts\<rparr>, db))"

text \<open>
  The two endpoints with a body: FastAPI validates the body against the handler's
  parameter type first and answers 422 without calling the handler when that fails.
\<close>

definition post_task ::
  "tasks_db \<Rightarrow> datetime \<Rightarrow> string \<Rightarrow> body \<Rightarrow> (error + TaskResponse) \<times> tasks_db" where
  "post_task db now uuid_hex b =
     (case validate_TaskCreate b of
        Inl e \<Rightarrow> (Inl e, db)
      | Inr task \<Rightarrow> create_task db now uuid_hex task)"

definition put_task ::
  "tasks_db \<Rightarrow> datetime \<Rightarrow> string \<Rightarrow> body \<Rightarrow> (error + TaskResponse) \<times> tasks_db" where
  "put_task db now task_id b =
     (case validate_TaskUpdate b of
        Inl e \<Rightarrow> (Inl e, db)
      | Inr task_update \<Rightarrow> update_task db now task_id task_update)"

section \<open>Predicates on tasks and stores\<close>

text \<open>The typing \<^verbatim>\<open>class Task\<close> declares: the three fields that are not \<^verbatim>\<open>Optional\<close> are there.\<close>

definition typed_Task :: "Task \<Rightarrow> bool" where
  "typed_Task t = (title t \<noteq> None \<and> status t \<noteq> None \<and> priority t \<noteq> None)"

text \<open>
  The field constraints of a task: a title of 1 to 200 characters, a description that is
  absent or of at most 1000 characters, a status and a priority of the enums, and
  \<^verbatim>\<open>created_at\<close> not after \<^verbatim>\<open>updated_at\<close>.
\<close>

definition valid_Task :: "Task \<Rightarrow> bool" where
  "valid_Task t =
     ((case title t of None \<Rightarrow> False | Some s \<Rightarrow> 1 \<le> length s \<and> length s \<le> 200) \<and>
      (case description t of None \<Rightarrow> True | Some d \<Rightarrow> length d \<le> 1000) \<and>
      status t \<noteq> None \<and> priority t \<noteq> None \<and>
      created_at t \<le> updated_at t)"

text \<open>
  \<^verbatim>\<open>uuid.uuid4().hex\<close>: 32 lower-case hexadecimal digits, the version digit 4 at
  index 12 and the variant digit at index 16; the first eight are random.
\<close>

definition is_uuid4_hex :: "string \<Rightarrow> bool" where
  "is_uuid4_hex h =
     (length h = 32 \<and> list_all (\<lambda>c. c \<in> set ''0123456789abcdef'') h \<and>
      h ! 12 = CHR ''4'' \<and> h ! 16 \<in> set ''89ab'')"

text \<open>
  The stores the process can be in: the seed, then any sequence of create, update and
  delete requests, each with any clock reading.
\<close>

inductive reachable :: "tasks_db \<Rightarrow> bool" where
  seed: "reachable init_db"
| create: "reachable db \<Longrightarrow> is_uuid4_hex h \<Longrightarrow> reachable (snd (post_task db now h b))"
| update: "reachable db \<Longrightarrow> reachable (snd (put_task db now task_id b))"
| delete: "reachable db \<Longrightarrow> reachable (snd (delete_task db task_id))"

text \<open>No key occurs twice, and every task is stored under its own id.\<close>

definition keyed :: "tasks_db \<Rightarrow> bool" where
  "keyed db = (distinct (map fst db) \<and> list_all (\<lambda>p. Task_id (snd p) = fst p) db)"

section \<open>The query layer as the specification words it\<close>

text \<open>
  \<open>x\<close> occurs in \<open>s\<close> case-insensitively: the lower case of \<open>x\<close> is a segment of
  the lower case of \<open>s\<close>.
\<close>

definition contains_ci :: "(string \<Rightarrow> string) \<Rightarrow> string \<Rightarrow> string \<Rightarrow> bool" where
  "contains_ci str_lower x s = (\<exists>pre post. str_lower s = pre @ str_lower x @ post)"

definition spec_status_match :: "TaskStatus option \<Rightarrow> Task \<Rightarrow> bool" where
  "spec_status_match q t = (case q of None \<Rightarrow> True | Some s \<Rightarrow> status t = Some s)"

definition spec_priority_match :: "TaskPriority option \<Rightarrow> Task \<Rightarrow> bool" where
  "spec_priority_match q t = (case q of None \<Rightarrow> True | Some p \<Rightarrow> priority t = Some p)"

text \<open>The title or the description contains the search string; an absent field never does.\<close>

definition field_contains_ci ::
  "(string \<Rightarrow> string) \<Rightarrow> string \<Rightarrow> string option \<Rightarrow> bool" where
  "field_contains_ci str_lower x f =
     (case f of None \<Rightarrow> False | Some s \<Rightarrow> contains_ci str_lower x s)"

definition spec_search_match :: "(string \<Rightarrow> string) \<Rightarrow> string option \<Rightarrow> Task \<Rightarrow> bool" where
  "spec_search_match str_lower q t =
     (case q of
        None \<Rightarrow> True
      | Some x \<Rightarrow>
          field_contains_ci str_lower x (title t) \<or>
          field_contains_ci str_lower x (description t))"

text \<open>
  Filter by status, then by priority, then by search; skip \<open>offset\<close> items and take up
  to \<open>limit\<close>.
\<close>

definition spec_page ::
  "(string \<Rightarrow> string) \<Rightarrow> tasks_db \<Rightarrow> TaskStatus option \<Rightarrow> TaskPriority option
     \<Rightarrow> string option \<Rightarrow> int \<Rightarrow> int \<Rightarrow> Task list" where
  "spec_page str_lower db status_q priority_q search limit offset =
     take (nat limit) (drop (nat offset)
       (filter (spec_search_match str_lower search)
         (filter (spec_priority_match priority_q)
           (filter (spec_status_match status_q) (dict_values db)))))"

text \<open>
  What the lemmas on searching need of \<^verbatim>\<open>str.lower\<close>: the lower case of a string is
  empty exactly when the string is.
\<close>

definition keeps_empty :: "(string \<Rightarrow> string) \<Rightarrow> bool" where
  "keeps_empty str_lower = (\<forall>y. (str_lower y = []) = (y = []))"

text \<open>
  When the specification has a create request rejected: title missing (the key absent,
  or \<^verbatim>\<open>null\<close>), empty or longer than 200 characters, description longer than 1000,
  status or priority a string outside its enum.
\<close>

definition spec_create_rejects :: "body \<Rightarrow> bool" where
  "spec_create_rejects b =
     (b_title b = Absent \<or> b_title b = Null \<or>
      (\<exists>s. b_title b = Val s \<and> (s = [] \<or> 200 < length s)) \<or>
      (\<exists>s. b_description b = Val s \<and> 1000 < length s) \<or>
      (\<exists>s. b_status b = Val s \<and>
           s \<notin> set [''pending'', ''in-progress'', ''completed'', ''cancelled'']) \<or>
      (\<exists>s. b_priority b = Val s \<and> s \<notin> set [''low'', ''medium'', ''high'', ''urgent'']))"

section \<open>Concrete requests\<close>

text \<open>
  Two results of \<^verbatim>\<open>uuid.uuid4().hex\<close> that differ and share their first eight digits,
  and request bodies: a title alone, another title, a title with a \<^verbatim>\<open>due_date\<close> that
  is not a datetime (\<^verbatim>\<open>{"title": "Test", "due_date": "not-a-date"}\<close>), and
  \<^verbatim>\<open>{"title": null}\<close>.
\<close>

definition uuid_hex_a :: string where
  "uuid_hex_a = ''0a1b2c3de4f54a6b8c7d9e0f1a2b3c4d''"

definition uuid_hex_b :: string where
  "uuid_hex_b = ''0a1b2c3d11114222b333444444444444''"

definition minimal_body :: body where
  "minimal_body =
     \<lparr>b_title = Val ''Minimal Task'', b_description = Absent, b_status = Absent,
      b_priority = Absent, b_due_date = Absent\<rparr>"

definition other_body :: body where
  "other_body =
     \<lparr>b_title = Val ''Test Task'', b_description = Val ''This is a test task'',
      b_status = Val ''pending'', b_priority = Val ''medium'', b_due_date = Absent\<rparr>"

definition bad_due_date_body :: body where
  "bad_due_date_body =
     \<lparr>b_title = Val ''Test'', b_description = Absent, b_status = Absent,
      b_priority = Absent, b_due_date = Wrong\<rparr>"

definition null_title_body :: body where
  "null_title_body =
     \<lparr>b_title = Null, b_description = Absent, b_status = Absent, b_priority = Absent,
      b_due_date = Absent\<rparr>"

text \<open>
  Three more update bodies: \<^verbatim>\<open>{"title": null, "description": null}\<close>,
  \<^verbatim>\<open>{"status": null, "priority": null}\<close>, and the validated
  \<^verbatim>\<open>{"status": "in-progress"}\<close>.
\<close>

definition null_texts_body :: body where
  "null_texts_body =
     \<lparr>b_title = Null, b_description = Null, b_status = Absent, b_priority = Absent,
      b_due_date = Absent\<rparr>"

definition null_enums_body :: body where
  "null_enums_body =
     \<lparr>b_title = Absent, b_description = Absent, b_status = Null, b_priority = Null,
      b_due_date = Absent\<rparr>"

definition in_progress_update :: TaskUpdate where
  "in_progress_update =
     \<lparr>u_title = None, u_description = None, u_status = Some (Some IN_PROGRESS),
      u_priority = None, u_due_date = None\<rparr>"

text \<open>The seed store after \<^verbatim>\<open>PUT /api/tasks/task-001\<close> with each of the three null bodies.\<close>

definition untitled_db :: tasks_db where
  "untitled_db = snd (put_task init_db (2025, 2, 1, 12, 0, 0, 0) ''task-001'' null_title_body)"

definition no_texts_db :: tasks_db where
  "no_texts_db = snd (put_task init_db (2025, 2, 1, 12, 0, 0, 0) ''task-001'' null_texts_body)"

definition no_enums_db :: tasks_db where
  "no_enums_db = snd (put_task init_db (2025, 2, 1, 12, 0, 0, 0) ''task-001'' null_enums_body)"

text \<open>The store after one create request on the seed, with the first of the two uuids.\<close>

definition collision_db :: tasks_db where
  "collision_db = snd (post_task init_db (2025, 2, 1, 12, 0, 0, 0) uuid_hex_a minimal_body)"

section \<open>Facts about the primitives\<close>

lemma map_of_dict_set: "map_of (dict_set k v d) = (map_of d)(k \<mapsto> v)"
  by (induction d) (auto simp: fun_eq_iff)

lemma dict_set_present: "k \<in> set (map fst d) \<Longrightarrow> map fst (dict_set k v d) = map fst d"
  by (induction d) auto

lemma dict_set_fresh: "k \<notin> set (map fst d) \<Longrightarrow> dict_set k v d = d @ [(k, v)]"
  by (induction d) auto

lemma length_dict_set:
  "length (dict_set k v d) = (if k \<in> set (map fst d) then length d else Suc (length d))"
  by (induction d) auto

lemma distinct_dict_set: "distinct (map fst d) \<Longrightarrow> distinct (map fst (dict_set k v d))"
  by (cases "k \<in> set (map fst d)") (simp_all add: dict_set_present dict_set_fresh)

lemma map_of_dict_pop: "map_of (dict_pop k d) = (map_of d)(k := None)"
  by (induction d) (auto simp: dict_pop_def fun_eq_iff)

lemma dict_contains_map_of: "dict_contains k d \<longleftrightarrow> map_of d k \<noteq> None"
  by (simp add: dict_contains_def map_of_eq_None_iff)

text \<open>With bounds that are not negative, a slice skips and takes.\<close>

lemma py_slice_page:
  assumes "0 \<le> a" and "0 \<le> l"
  shows "py_slice xs a (a + l) = take (nat l) (drop (nat a) xs)"
proof (cases "a \<le> int (length xs)")
  case True
  show ?thesis
  proof (cases "a + l \<le> int (length xs)")
    case True
    with assms \<open>a \<le> int (length xs)\<close> show ?thesis
      by (simp add: py_slice_def slice_bound_def Let_def)
  next
    case False
    with assms \<open>a \<le> int (length xs)\<close> show ?thesis
      by (simp add: py_slice_def slice_bound_def Let_def min_def)
  qed
next
  case False
  with assms show ?thesis
    by (simp add: py_slice_def slice_bound_def Let_def min_def)
qed

lemma startswith_iff: "startswith b a \<longleftrightarrow> (\<exists>post. b = a @ post)"
  unfolding startswith_def
  by (metis append_eq_conv_conj append_take_drop_id)

lemma str_in_iff: "str_in a b \<longleftrightarrow> (\<exists>pre post. b = pre @ a @ post)"
proof (induction b)
  case Nil
  then show ?case by auto
next
  case (Cons c cs)
  show ?case
  proof
    assume "str_in a (c # cs)"
    then consider "startswith (c # cs) a" | "str_in a cs" by auto
    then show "\<exists>pre post. c # cs = pre @ a @ post"
    proof cases
      case 1
      then obtain post where "c # cs = a @ post" by (auto simp: startswith_iff)
      then have "c # cs = [] @ a @ post" by simp
      then show ?thesis by blast
    next
      case 2
      with Cons.IH obtain pre post where "cs = pre @ a @ post" by blast
      then have "c # cs = (c # pre) @ a @ post" by simp
      then show ?thesis by blast
    qed
  next
    assume "\<exists>pre post. c # cs = pre @ a @ post"
    then obtain pre post where eq: "c # cs = pre @ a @ post" by blast
    show "str_in a (c # cs)"
    proof (cases pre)
      case Nil
      with eq have "startswith (c # cs) a" by (auto simp: startswith_iff)
      then show ?thesis by simp
    next
      case (Cons p pre')
      with eq have "cs = pre' @ a @ post" by simp
      with Cons.IH have "str_in a cs" by blast
      then show ?thesis by simp
    qed
  qed
qed

section \<open>The seed store\<close>

lemma init_db_eval: "init_db = map (\<lambda>t. (Task_id t, t)) sample_tasks"
  by (simp add: init_db_def sample_tasks_def)

lemma init_db_values: "dict_values init_db = sample_tasks"
  by (simp add: init_db_eval dict_values_def sample_tasks_def)

lemma init_db_typed: "list_all typed_Task (dict_values init_db)"
  by (simp add: init_db_values sample_tasks_def typed_Task_def)

section \<open>Listing a store of the declared typing\<close>

lemma contains_ci_iff:
  "contains_ci str_lower x s \<longleftrightarrow> str_in (str_lower x) (str_lower s)"
  by (simp add: contains_ci_def str_in_iff)

lemma contains_ci_Nil:
  assumes "keeps_empty str_lower"
  shows "contains_ci str_lower [] s"
proof -
  from assms have "str_lower [] = []" by (simp add: keeps_empty_def)
  then have "str_lower s = [] @ str_lower [] @ str_lower s" by simp
  then show ?thesis unfolding contains_ci_def by blast
qed

lemma search_keeps_spec:
  assumes t: "title t \<noteq> None" and x: "x \<noteq> []" and low: "keeps_empty str_lower"
  shows "search_keeps str_lower (str_lower x) t = Inr (spec_search_match str_lower (Some x) t)"
proof -
  from t obtain ti where ti: "title t = Some ti" by auto
  have nonempty: "str_lower x \<noteq> []" and empty: "str_lower [] = []"
    using x low by (simp_all add: keeps_empty_def)
  have d: "(case description t of None \<Rightarrow> False
            | Some d \<Rightarrow> d \<noteq> [] \<and> str_in (str_lower x) (str_lower d))
           = field_contains_ci str_lower x (description t)"
  proof (cases "description t")
    case None
    then show ?thesis by (simp add: field_contains_ci_def)
  next
    case (Some d)
    have "str_in (str_lower x) (str_lower d) \<Longrightarrow> d \<noteq> []"
      using nonempty empty by auto
    with Some show ?thesis
      by (auto simp: field_contains_ci_def contains_ci_iff)
  qed
  show ?thesis
    unfolding search_keeps_def spec_search_match_def
    by (simp add: ti d field_contains_ci_def contains_ci_iff)
qed

lemma search_filter_spec:
  assumes "list_all (\<lambda>t. title t \<noteq> None) ts" and "x \<noteq> []" and "keeps_empty str_lower"
  shows "search_filter str_lower (str_lower x) ts =
           Inr (filter (spec_search_match str_lower (Some x)) ts)"
  using assms by (induction ts) (simp_all add: search_keeps_spec)

lemma spec_search_match_empty:
  assumes "title t \<noteq> None" and "keeps_empty str_lower"
  shows "spec_search_match str_lower (Some []) t"
  using assms
  by (auto simp: spec_search_match_def field_contains_ci_def contains_ci_Nil)

lemma list_all_filter: "list_all P xs \<Longrightarrow> list_all P (filter Q xs)"
  by (simp add: list_all_iff)

lemma search_step:
  assumes titled: "list_all (\<lambda>t. title t \<noteq> None) ts" and low: "keeps_empty str_lower"
  shows "(case search of None \<Rightarrow> Inr ts
          | Some s \<Rightarrow> if s = [] then Inr ts else search_filter str_lower (str_lower s) ts)
         = Inr (filter (spec_search_match str_lower search) ts)"
proof (cases search)
  case None
  then show ?thesis by (simp add: spec_search_match_def [abs_def])
next
  case (Some x)
  show ?thesis
  proof (cases "x = []")
    case True
    have "filter (spec_search_match str_lower (Some [])) ts = ts"
      using titled low
      by (auto simp: list_all_iff spec_search_match_empty intro: filter_True)
    with Some True show ?thesis by simp
  next
    case False
    with Some titled low show ?thesis by (simp add: search_filter_spec)
  qed
qed

lemma get_tasks_unfold:
  assumes "1 \<le> limit" "limit \<le> 100" "0 \<le> offset"
  shows "get_tasks str_lower db status_q priority_q search limit offset =
     (case (case search of
              None \<Rightarrow> Inr (filter (spec_priority_match priority_q)
                             (filter (spec_status_match status_q) (dict_values db)))
            | Some s \<Rightarrow>
                if s = [] then Inr (filter (spec_priority_match priority_q)
                                     (filter (spec_status_match status_q) (dict_values db)))
                else search_filter str_lower (str_lower s)
                       (filter (spec_priority_match priority_q)
                         (filter (spec_status_match status_q) (dict_values db)))) of
        Inl e \<Rightarrow> (Inl e, db)
      | Inr fs \<Rightarrow>
          (Inr \<lparr>tl_success = True,
                tl_count = int (length (py_slice fs offset (offset + limit))),
                tl_data = py_slice fs offset (offset + limit)\<rparr>, db))"
proof -
  have st: "filter (spec_status_match status_q) xs =
              (case status_q of None \<Rightarrow> xs | Some s \<Rightarrow> filter (\<lambda>t. status t = Some s) xs)"
    for xs
    by (cases status_q) (simp_all add: spec_status_match_def [abs_def])
  have pr: "filter (spec_priority_match priority_q) xs =
              (case priority_q of None \<Rightarrow> xs | Some p \<Rightarrow> filter (\<lambda>t. priority t = Some p) xs)"
    for xs
    by (cases priority_q) (simp_all add: spec_priority_match_def [abs_def])
  have guard: "\<not> (limit < 1 \<or> 100 < limit \<or> offset < 0)"
    using assms by simp
  show ?thesis
    unfolding st pr get_tasks_def Let_def if_not_P [OF guard] ..
qed

text \<open>
  On a store whose tasks have the fields \<^verbatim>\<open>class Task\<close> declares, \<^verbatim>\<open>get_tasks\<close>
  returns the page of the specification, for every optional status, priority and search
  and every \<open>limit\<close> in 1..100 and \<open>offset\<close> from 0: the store's tasks in order, filtered
  by status, then priority, then search, then \<open>offset\<close> items skipped and up to \<open>limit\<close>
  taken, with \<^verbatim>\<open>count\<close> the length of that page.
\<close>

lemma get_tasks_eq_spec_page:
  assumes typed: "list_all typed_Task (dict_values db)"
    and low: "keeps_empty str_lower"
    and lim: "1 \<le> limit" "limit \<le> 100" and off: "0 \<le> offset"
  shows "get_tasks str_lower db status_q priority_q search limit offset =
           (Inr \<lparr>tl_success = True,
                 tl_count =
                   int (length (spec_page str_lower db status_q priority_q search limit offset)),
                 tl_data = spec_page str_lower db status_q priority_q search limit offset\<rparr>,
            db)"
proof -
  have "list_all (\<lambda>t. title t \<noteq> None) (dict_values db)"
    using typed by (auto simp: list_all_iff typed_Task_def)
  then have titled: "list_all (\<lambda>t. title t \<noteq> None)
                       (filter (spec_priority_match priority_q)
                         (filter (spec_status_match status_q) (dict_values db)))"
    by (intro list_all_filter)
  have page: "py_slice ys offset (offset + limit) = take (nat limit) (drop (nat offset) ys)"
    for ys :: "Task list"
    using off lim by (intro py_slice_page) simp_all
  show ?thesis
    unfolding get_tasks_unfold [OF lim off] search_step [OF titled low] page spec_page_def
    by simp
qed

lemma get_tasks_query_defaults:
  assumes "list_all typed_Task (dict_values db)" and "keeps_empty str_lower"
  shows "get_tasks_query str_lower db status_q priority_q search None None =
           (Inr \<lparr>tl_success = True,
                 tl_count = int (length (spec_page str_lower db status_q priority_q search 100 0)),
                 tl_data = spec_page str_lower db status_q priority_q search 100 0\<rparr>, db)"
  unfolding get_tasks_query_def option.case
  by (rule get_tasks_eq_spec_page [OF assms]) simp_all

lemma search_filter_Inr_titled:
  "search_filter str_lower sl ts = Inr r \<Longrightarrow> list_all (\<lambda>t. title t \<noteq> None) ts"
  by (induction ts arbitrary: r)
    (auto simp: search_keeps_def split: sum.splits option.splits)

text \<open>
  Every task that \<^verbatim>\<open>get_tasks\<close> returns for \<^verbatim>\<open>search=x\<close> contains \<open>x\<close>,
  case-insensitively, in its title or in its description, and a task with no description
  whose title does not contain \<open>x\<close> is not returned: on every store when \<open>x\<close> is not
  empty, and on a store whose tasks have the fields \<^verbatim>\<open>class Task\<close> declares when it is.
\<close>

lemma get_tasks_search_hits:
  assumes store: "x \<noteq> [] \<or> list_all typed_Task (dict_values db)"
    and low: "keeps_empty str_lower"
    and res: "get_tasks str_lower db status_q priority_q (Some x) limit offset = (Inr r, db')"
  shows "(\<forall>t \<in> set (tl_data r).
            field_contains_ci str_lower x (title t) \<or>
            field_contains_ci str_lower x (description t)) \<and>
         (\<forall>t. description t = None \<and> \<not> field_contains_ci str_lower x (title t)
               \<longrightarrow> t \<notin> set (tl_data r))"
proof -
  define fs where "fs = filter (spec_priority_match priority_q)
                          (filter (spec_status_match status_q) (dict_values db))"
  have guard: "1 \<le> limit \<and> limit \<le> 100 \<and> 0 \<le> offset"
  proof (rule ccontr)
    assume "\<not> ?thesis"
    then have "get_tasks str_lower db status_q priority_q (Some x) limit offset =
                 (Inl RequestValidationError, db)"
      by (auto simp: get_tasks_def)
    with res show False by simp
  qed
  then have unfolded: "get_tasks str_lower db status_q priority_q (Some x) limit offset =
      (case (if x = [] then Inr fs else search_filter str_lower (str_lower x) fs) of
         Inl e \<Rightarrow> (Inl e, db)
       | Inr fs' \<Rightarrow>
           (Inr \<lparr>tl_success = True,
                 tl_count = int (length (py_slice fs' offset (offset + limit))),
                 tl_data = py_slice fs' offset (offset + limit)\<rparr>, db))"
    unfolding fs_def by (simp add: get_tasks_unfold)
  have titled: "list_all (\<lambda>t. title t \<noteq> None) fs"
  proof (cases "x = []")
    case True
    with store have "list_all typed_Task (dict_values db)" by simp
    then show ?thesis
      unfolding fs_def by (auto simp: list_all_iff typed_Task_def)
  next
    case False
    with res unfolded obtain fs' where "search_filter str_lower (str_lower x) fs = Inr fs'"
      by (cases "search_filter str_lower (str_lower x) fs") auto
    then show ?thesis by (rule search_filter_Inr_titled)
  qed
  have "(if x = [] then Inr fs else search_filter str_lower (str_lower x) fs) =
          (Inr (filter (spec_search_match str_lower (Some x)) fs) :: error + Task list)"
    using search_step [OF titled low, of "Some x"] by simp
  with res unfolded guard
  have "tl_data r =
          take (nat limit) (drop (nat offset) (filter (spec_search_match str_lower (Some x)) fs))"
    by (auto simp: py_slice_page)
  then have "set (tl_data r) \<subseteq> {t. spec_search_match str_lower (Some x) t}"
    by (auto dest!: in_set_takeD in_set_dropD)
  then have hits: "\<forall>t \<in> set (tl_data r).
                     field_contains_ci str_lower x (title t) \<or>
                     field_contains_ci str_lower x (description t)"
    by (auto simp: spec_search_match_def)
  moreover have "t \<notin> set (tl_data r)"
    if "description t = None \<and> \<not> field_contains_ci str_lower x (title t)" for t
    using that hits by (auto simp: field_contains_ci_def)
  ultimately show ?thesis by blast
qed

section \<open>Requests for an absent id\<close>

lemma absent_not_contains: "k \<notin> set (map fst d) \<Longrightarrow> \<not> dict_contains k d"
  by (simp add: dict_contains_def)

text \<open>
  C4. For an id that is not a key of the store, \<^verbatim>\<open>get_task\<close>, \<^verbatim>\<open>update_task\<close> and
  \<^verbatim>\<open>delete_task\<close> each raise the 404 \<^verbatim>\<open>HTTPException\<close> whose detail is the text
  \<^verbatim>\<open>Task with ID '<id>' not found\<close>, the same on every call, and leave the store as it
  was.
\<close>

theorem absent_id_not_found:
  assumes "task_id \<notin> set (map fst db)"
  shows "get_task db task_id =
           (Inl (HTTPException 404
                  (''Task with ID '' @ [CHR 0x27] @ task_id @ [CHR 0x27] @ '' not found'')), db) \<and>
         update_task db now task_id task_update =
           (Inl (HTTPException 404
                  (''Task with ID '' @ [CHR 0x27] @ task_id @ [CHR 0x27] @ '' not found'')), db) \<and>
         delete_task db task_id =
           (Inl (HTTPException 404
                  (''Task with ID '' @ [CHR 0x27] @ task_id @ [CHR 0x27] @ '' not found'')), db)"
  using absent_not_contains [OF assms]
  by (simp add: get_task_def update_task_def delete_task_def not_found_detail_def)

theorem absent_id_not_found_witness:
  "''non-existent-id'' \<notin> set (map fst init_db) \<and>
   get_task init_db ''non-existent-id'' =
     (Inl (HTTPException 404 (''Task with ID '' @ [CHR 0x27] @ ''non-existent-id'' @ [CHR 0x27] @ '' not found'')), init_db) \<and>
   update_task init_db (2025, 2, 1, 12, 0, 0, 0) ''non-existent-id''
      \<lparr>u_title = None, u_description = None, u_status = Some (Some COMPLETED),
       u_priority = None, u_due_date = None\<rparr> =
     (Inl (HTTPException 404 (''Task with ID '' @ [CHR 0x27] @ ''non-existent-id'' @ [CHR 0x27] @ '' not found'')), init_db) \<and>
   delete_task init_db ''non-existent-id'' =
     (Inl (HTTPException 404 (''Task with ID '' @ [CHR 0x27] @ ''non-existent-id'' @ [CHR 0x27] @ '' not found'')), init_db)"
proof -
  have absent: "''non-existent-id'' \<notin> set (map fst init_db)"
    by (simp add: init_db_eval sample_tasks_def)
  show ?thesis
    using absent absent_id_not_found [OF absent] by simp
qed

section \<open>Updating\<close>

lemma present_lookup:
  assumes "map_of d k = Some v"
  shows "dict_contains k d" and "dict_get d k = Inr v"
  using assms by (simp_all add: dict_contains_map_of dict_get_def)

lemma update_task_present:
  assumes "map_of db task_id = Some old"
  shows "update_task db now task_id u =
           (Inr \<lparr>tr_success = True, tr_message = ''Task updated successfully'',
                 tr_data = model_copy old u now\<rparr>,
            dict_set task_id (model_copy old u now) db)"
  using present_lookup [OF assms] by (simp add: update_task_def Let_def)

lemma get_task_present:
  assumes "map_of db task_id = Some t"
  shows "get_task db task_id =
           (Inr \<lparr>tr_success = True, tr_message = ''Task retrieved successfully'',
                 tr_data = t\<rparr>, db)"
  using present_lookup [OF assms] by (simp add: get_task_def)

lemma map_of_present_keys: "map_of d k = Some v \<Longrightarrow> k \<in> set (map fst d)"
  by (metis map_of_eq_None_iff option.distinct(1) set_map)

text \<open>
  C3, amended. An update of a stored task succeeds, and the task it stores and returns,
  which a later \<^verbatim>\<open>get_task\<close> of the id reads, has every field the payload set at the
  payload's value and every field it left out, the id and \<^verbatim>\<open>created_at\<close> as before.
  \<^verbatim>\<open>updated_at\<close> is set to the clock reading, whatever it is: it is not before the
  prior value when the clock reading is not. The keys of the store and every other
  record are as before.
\<close>

theorem update_task_changes_only_supplied:
  assumes stored: "map_of db task_id = Some old"
  shows "\<exists>new.
           fst (update_task db now task_id u) =
             Inr \<lparr>tr_success = True, tr_message = ''Task updated successfully'',
                  tr_data = new\<rparr> \<and>
           map_of (snd (update_task db now task_id u)) task_id = Some new \<and>
           fst (get_task (snd (update_task db now task_id u)) task_id) =
             Inr \<lparr>tr_success = True, tr_message = ''Task retrieved successfully'',
                  tr_data = new\<rparr> \<and>
           (u_title u = None \<longrightarrow> title new = title old) \<and>
           (\<forall>v. u_title u = Some v \<longrightarrow> title new = v) \<and>
           (u_description u = None \<longrightarrow> description new = description old) \<and>
           (\<forall>v. u_description u = Some v \<longrightarrow> description new = v) \<and>
           (u_status u = None \<longrightarrow> status new = status old) \<and>
           (\<forall>v. u_status u = Some v \<longrightarrow> status new = v) \<and>
           (u_priority u = None \<longrightarrow> priority new = priority old) \<and>
           (\<forall>v. u_priority u = Some v \<longrightarrow> priority new = v) \<and>
           (u_due_date u = None \<longrightarrow> due_date new = due_date old) \<and>
           (\<forall>v. u_due_date u = Some v \<longrightarrow> due_date new = v) \<and>
           Task_id new = Task_id old \<and> created_at new = created_at old \<and>
           updated_at new = now \<and>
           (updated_at old \<le> now \<longrightarrow> updated_at old \<le> updated_at new) \<and>
           map fst (snd (update_task db now task_id u)) = map fst db \<and>
           (\<forall>k. k \<noteq> task_id \<longrightarrow>
                map_of (snd (update_task db now task_id u)) k = map_of db k)"
proof -
  let ?new = "model_copy old u now"
  have upd: "update_task db now task_id u =
               (Inr \<lparr>tr_success = True, tr_message = ''Task updated successfully'',
                     tr_data = ?new\<rparr>, dict_set task_id ?new db)"
    by (rule update_task_present [OF stored])
  have look: "map_of (dict_set task_id ?new db) task_id = Some ?new"
    by (simp add: map_of_dict_set)
  have keys: "map fst (dict_set task_id ?new db) = map fst db"
    by (rule dict_set_present [OF map_of_present_keys [OF stored]])
  have others: "\<forall>k. k \<noteq> task_id \<longrightarrow> map_of (dict_set task_id ?new db) k = map_of db k"
    by (simp add: map_of_dict_set)
  have fields:
    "(u_title u = None \<longrightarrow> title ?new = title old) \<and>
     (\<forall>v. u_title u = Some v \<longrightarrow> title ?new = v) \<and>
     (u_description u = None \<longrightarrow> description ?new = description old) \<and>
     (\<forall>v. u_description u = Some v \<longrightarrow> description ?new = v) \<and>
     (u_status u = None \<longrightarrow> status ?new = status old) \<and>
     (\<forall>v. u_status u = Some v \<longrightarrow> status ?new = v) \<and>
     (u_priority u = None \<longrightarrow> priority ?new = priority old) \<and>
     (\<forall>v. u_priority u = Some v \<longrightarrow> priority ?new = v) \<and>
     (u_due_date u = None \<longrightarrow> due_date ?new = due_date old) \<and>
     (\<forall>v. u_due_date u = Some v \<longrightarrow> due_date ?new = v) \<and>
     Task_id ?new = Task_id old \<and> created_at ?new = created_at old \<and>
     updated_at ?new = now \<and> (updated_at old \<le> now \<longrightarrow> updated_at old \<le> updated_at ?new)"
    by (simp add: model_copy_def)
  show ?thesis
    unfolding upd fst_conv snd_conv get_task_present [OF look] keys
    using look others fields by (intro exI [of _ ?new]) blast
qed

lemma seed_lookup_001: "map_of init_db ''task-001'' = Some (sample_tasks ! 0)"
  by (simp add: init_db_eval sample_tasks_def)

theorem update_task_changes_only_supplied_witness:
  "map_of init_db ''task-001'' = Some (sample_tasks ! 0) \<and>
   updated_at (sample_tasks ! 0) \<le> (2025, 2, 1, 12, 0, 0, 0) \<and>
   (\<exists>new.
      fst (update_task init_db (2025, 2, 1, 12, 0, 0, 0) ''task-001''
             \<lparr>u_title = None, u_description = None, u_status = Some (Some IN_PROGRESS),
              u_priority = None, u_due_date = None\<rparr>) =
        Inr \<lparr>tr_success = True, tr_message = ''Task updated successfully'', tr_data = new\<rparr> \<and>
      status new = Some IN_PROGRESS \<and>
      title new = Some ''Setup Development Environment'' \<and>
      priority new = Some HIGH \<and>
      Task_id new = ''task-001'' \<and>
      created_at new = (2025, 1, 10, 9, 0, 0, 0) \<and>
      updated_at new = (2025, 2, 1, 12, 0, 0, 0) \<and>
      (2025, 1, 14, 15, 30, 0, 0) \<le> updated_at new)"
proof -
  have clock: "updated_at (sample_tasks ! 0) \<le> (2025, 2, 1, 12, 0, 0, 0)"
    by (simp add: sample_tasks_def)
  from update_task_changes_only_supplied [OF seed_lookup_001,
      of "(2025, 2, 1, 12, 0, 0, 0)"
         "\<lparr>u_title = None, u_description = None, u_status = Some (Some IN_PROGRESS),
           u_priority = None, u_due_date = None\<rparr>"] clock
  obtain new where
    "fst (update_task init_db (2025, 2, 1, 12, 0, 0, 0) ''task-001''
             \<lparr>u_title = None, u_description = None, u_status = Some (Some IN_PROGRESS),
              u_priority = None, u_due_date = None\<rparr>) =
        Inr \<lparr>tr_success = True, tr_message = ''Task updated successfully'', tr_data = new\<rparr>"
    and "status new = Some IN_PROGRESS"
    and "title new = title (sample_tasks ! 0)"
    and "priority new = priority (sample_tasks ! 0)"
    and "Task_id new = Task_id (sample_tasks ! 0)"
    and "created_at new = created_at (sample_tasks ! 0)"
    and "updated_at new = (2025, 2, 1, 12, 0, 0, 0)"
    and "updated_at (sample_tasks ! 0) \<le> updated_at new"
    by auto
  then show ?thesis
    using seed_lookup_001 clock by (intro conjI exI [of _ new]) (simp_all add: sample_tasks_def)
qed

text \<open>
  C3 as stated fails: \<^verbatim>\<open>updated_at\<close> is whatever \<^verbatim>\<open>datetime.now()\<close> reads, and the code
  compares it with nothing. With the clock at 2025-01-01 00:00:00, the update
  \<^verbatim>\<open>{"status": "in-progress"}\<close> of the seed's task-001 stores an \<^verbatim>\<open>updated_at\<close> before
  the prior one, 2025-01-14 15:30:00, and before \<^verbatim>\<open>created_at\<close>.
\<close>

theorem update_with_earlier_clock_counterexample:
  "map_of init_db ''task-001'' = Some (sample_tasks ! 0) \<and>
   updated_at (sample_tasks ! 0) = (2025, 1, 14, 15, 30, 0, 0) \<and>
   map_of (snd (update_task init_db (2025, 1, 1, 0, 0, 0, 0) ''task-001'' in_progress_update))
     ''task-001'' =
     Some ((sample_tasks ! 0)
             \<lparr>status := Some IN_PROGRESS, updated_at := (2025, 1, 1, 0, 0, 0, 0)\<rparr>) \<and>
   updated_at ((sample_tasks ! 0)
                 \<lparr>status := Some IN_PROGRESS, updated_at := (2025, 1, 1, 0, 0, 0, 0)\<rparr>)
     < updated_at (sample_tasks ! 0) \<and>
   \<not> updated_at (sample_tasks ! 0)
       \<le> updated_at ((sample_tasks ! 0)
                        \<lparr>status := Some IN_PROGRESS, updated_at := (2025, 1, 1, 0, 0, 0, 0)\<rparr>) \<and>
   updated_at ((sample_tasks ! 0)
                 \<lparr>status := Some IN_PROGRESS, updated_at := (2025, 1, 1, 0, 0, 0, 0)\<rparr>)
     < created_at (sample_tasks ! 0)"
proof -
  have stored: "map_of (snd (update_task init_db (2025, 1, 1, 0, 0, 0, 0) ''task-001''
                  in_progress_update)) ''task-001'' =
     Some ((sample_tasks ! 0)
             \<lparr>status := Some IN_PROGRESS, updated_at := (2025, 1, 1, 0, 0, 0, 0)\<rparr>)"
    unfolding update_task_present [OF seed_lookup_001] snd_conv map_of_dict_set
    by (simp add: model_copy_def in_progress_update_def)
  show ?thesis
    using seed_lookup_001 stored by (simp add: sample_tasks_def)
qed

lemma put_task_valid:
  "validate_TaskUpdate b = Inr u \<Longrightarrow> put_task db now task_id b = update_task db now task_id u"
  by (simp add: put_task_def)

lemma validate_TaskUpdate_description:
  assumes "validate_TaskUpdate b = Inr u"
  shows "(b_description b = Null \<longrightarrow> u_description u = Some None) \<and>
         (b_description b = Absent \<longrightarrow> u_description u = None)"
  using assms by (auto simp: validate_TaskUpdate_def split: option.splits)

lemma validate_TaskUpdate_due_date:
  assumes "validate_TaskUpdate b = Inr u"
  shows "(b_due_date b = Null \<longrightarrow> u_due_date u = Some None) \<and>
         (b_due_date b = Absent \<longrightarrow> u_due_date u = None)"
  using assms by (auto simp: validate_TaskUpdate_def split: option.splits)

text \<open>
  C5. In an update request that validates, \<^verbatim>\<open>null\<close> for \<^verbatim>\<open>description\<close> or
  \<^verbatim>\<open>due_date\<close> clears that field of the stored task, and leaving the key out keeps
  the field's value.
\<close>

theorem update_null_clears_omitted_keeps:
  assumes stored: "map_of db task_id = Some old"
    and valid: "validate_TaskUpdate b = Inr u"
  shows "\<exists>new.
           map_of (snd (put_task db now task_id b)) task_id = Some new \<and>
           (b_description b = Null \<longrightarrow> description new = None) \<and>
           (b_description b = Absent \<longrightarrow> description new = description old) \<and>
           (b_due_date b = Null \<longrightarrow> due_date new = None) \<and>
           (b_due_date b = Absent \<longrightarrow> due_date new = due_date old)"
proof -
  let ?new = "model_copy old u now"
  have "map_of (snd (put_task db now task_id b)) task_id = Some ?new"
    unfolding put_task_valid [OF valid] update_task_present [OF stored]
    by (simp add: map_of_dict_set)
  moreover have
    "(b_description b = Null \<longrightarrow> description ?new = None) \<and>
     (b_description b = Absent \<longrightarrow> description ?new = description old) \<and>
     (b_due_date b = Null \<longrightarrow> due_date ?new = None) \<and>
     (b_due_date b = Absent \<longrightarrow> due_date ?new = due_date old)"
    using validate_TaskUpdate_description [OF valid] validate_TaskUpdate_due_date [OF valid]
    by (auto simp: model_copy_def)
  ultimately show ?thesis by blast
qed

lemma validate_null_description:
  "validate_TaskUpdate
     \<lparr>b_title = Absent, b_description = Null, b_status = Absent, b_priority = Absent,
      b_due_date = Absent\<rparr> =
   Inr \<lparr>u_title = None, u_description = Some None, u_status = None, u_priority = None,
        u_due_date = None\<rparr>"
  by (simp add: validate_TaskUpdate_def)

theorem update_null_clears_omitted_keeps_witness:
  "map_of init_db ''task-001'' = Some (sample_tasks ! 0) \<and>
   validate_TaskUpdate
     \<lparr>b_title = Absent, b_description = Null, b_status = Absent, b_priority = Absent,
      b_due_date = Absent\<rparr> =
   Inr \<lparr>u_title = None, u_description = Some None, u_status = None, u_priority = None,
        u_due_date = None\<rparr> \<and>
   (\<exists>new.
      map_of (snd (put_task init_db (2025, 2, 1, 12, 0, 0, 0) ''task-001''
                     \<lparr>b_title = Absent, b_description = Null, b_status = Absent,
                      b_priority = Absent, b_due_date = Absent\<rparr>)) ''task-001'' = Some new \<and>
      description new = None \<and>
      due_date new = Some (2025, 1, 15, 10, 0, 0, 0))"
proof -
  from update_null_clears_omitted_keeps [OF seed_lookup_001 validate_null_description,
      where now = "(2025, 2, 1, 12, 0, 0, 0)"]
  obtain new where
    "map_of (snd (put_task init_db (2025, 2, 1, 12, 0, 0, 0) ''task-001''
                     \<lparr>b_title = Absent, b_description = Null, b_status = Absent,
                      b_priority = Absent, b_due_date = Absent\<rparr>)) ''task-001'' = Some new"
    and "description new = None"
    and "due_date new = due_date (sample_tasks ! 0)"
    by auto
  then show ?thesis
    using seed_lookup_001 validate_null_description
    by (intro conjI exI [of _ new]) (simp_all add: sample_tasks_def)
qed

section \<open>Reading leaves the store alone\<close>

text \<open>
  C10. \<^verbatim>\<open>get_tasks\<close> with any parameters, \<^verbatim>\<open>get_task\<close> of any id,
  \<^verbatim>\<open>get_statistics\<close> and \<^verbatim>\<open>health_check\<close> leave the store equal to what it was.
\<close>

theorem read_endpoints_keep_store:
  "snd (get_tasks str_lower db status_q priority_q search limit offset) = db \<and>
   snd (get_task db task_id) = db \<and>
   snd (get_statistics db) = db \<and>
   snd (health_check db now) = db"
  by (simp add: get_tasks_def get_task_def get_statistics_def health_check_def Let_def
      split: sum.splits option.splits)


section \<open>Statistics\<close>

lemma status_counts_sum:
  assumes "list_all (\<lambda>t. status t \<noteq> None) ts"
  shows "length (filter (\<lambda>t. status t = Some PENDING) ts) +
         length (filter (\<lambda>t. status t = Some IN_PROGRESS) ts) +
         length (filter (\<lambda>t. status t = Some COMPLETED) ts) +
         length (filter (\<lambda>t. status t = Some CANCELLED) ts) = length ts"
  using assms
proof (induction ts)
  case Nil
  then show ?case by simp
next
  case (Cons t ts)
  then obtain s where "status t = Some s" by auto
  with Cons show ?case by (cases s) simp_all
qed

lemma priority_counts_sum:
  assumes "list_all (\<lambda>t. priority t \<noteq> None) ts"
  shows "length (filter (\<lambda>t. priority t = Some LOW) ts) +
         length (filter (\<lambda>t. priority t = Some MEDIUM) ts) +
         length (filter (\<lambda>t. priority t = Some HIGH) ts) +
         length (filter (\<lambda>t. priority t = Some URGENT) ts) = length ts"
  using assms
proof (induction ts)
  case Nil
  then show ?case by simp
next
  case (Cons t ts)
  then obtain p where "priority t = Some p" by auto
  with Cons show ?case by (cases p) simp_all
qed

lemma get_statistics_eval:
  "fst (get_statistics db) =
     \<lparr>total_tasks = int (length db),
      by_status =
        [(''pending'', int (length (filter (\<lambda>t. status t = Some PENDING) (dict_values db)))),
         (''in-progress'', int (length (filter (\<lambda>t. status t = Some IN_PROGRESS) (dict_values db)))),
         (''completed'', int (length (filter (\<lambda>t. status t = Some COMPLETED) (dict_values db)))),
         (''cancelled'', int (length (filter (\<lambda>t. status t = Some CANCELLED) (dict_values db))))],
      by_priority =
        [(''low'', int (length (filter (\<lambda>t. priority t = Some LOW) (dict_values db)))),
         (''medium'', int (length (filter (\<lambda>t. priority t = Some MEDIUM) (dict_values db)))),
         (''high'', int (length (filter (\<lambda>t. priority t = Some HIGH) (dict_values db)))),
         (''urgent'', int (length (filter (\<lambda>t. priority t = Some URGENT) (dict_values db))))]\<rparr>"
  by (simp add: get_statistics_def Let_def TaskStatus_members_def TaskPriority_members_def
      dict_values_def)

text \<open>
  \<^verbatim>\<open>get_statistics\<close> reports the size of the store as \<^verbatim>\<open>total_tasks\<close>, and the keys
  of \<^verbatim>\<open>by_status\<close> are the four status values and those of \<^verbatim>\<open>by_priority\<close> the four
  priority values, whatever the counts, on every store; on a store whose tasks have the
  fields \<^verbatim>\<open>class Task\<close> declares, each of the two groups of counts sums to
  \<^verbatim>\<open>total_tasks\<close>.
\<close>

lemma get_statistics_counts:
  "total_tasks (fst (get_statistics db)) = int (length db) \<and>
   map fst (by_status (fst (get_statistics db))) =
     [''pending'', ''in-progress'', ''completed'', ''cancelled''] \<and>
   map fst (by_priority (fst (get_statistics db))) =
     [''low'', ''medium'', ''high'', ''urgent''] \<and>
   (list_all typed_Task (dict_values db) \<longrightarrow>
      sum_list (map snd (by_status (fst (get_statistics db)))) =
        total_tasks (fst (get_statistics db)) \<and>
      sum_list (map snd (by_priority (fst (get_statistics db)))) =
        total_tasks (fst (get_statistics db)))"
proof -
  have keys: "total_tasks (fst (get_statistics db)) = int (length db) \<and>
     map fst (by_status (fst (get_statistics db))) =
       [''pending'', ''in-progress'', ''completed'', ''cancelled''] \<and>
     map fst (by_priority (fst (get_statistics db))) =
       [''low'', ''medium'', ''high'', ''urgent'']"
    unfolding get_statistics_eval by simp
  have sums: "sum_list (map snd (by_status (fst (get_statistics db)))) =
                total_tasks (fst (get_statistics db)) \<and>
              sum_list (map snd (by_priority (fst (get_statistics db)))) =
                total_tasks (fst (get_statistics db))"
    if typed: "list_all typed_Task (dict_values db)"
  proof -
    have st: "list_all (\<lambda>t. status t \<noteq> None) (dict_values db)"
      and pr: "list_all (\<lambda>t. priority t \<noteq> None) (dict_values db)"
      using typed by (auto simp: list_all_iff typed_Task_def)
    have len: "length (dict_values db) = length db"
      by (simp add: dict_values_def)
    have s_sum: "int (length (filter (\<lambda>t. status t = Some PENDING) (dict_values db))) +
         (int (length (filter (\<lambda>t. status t = Some IN_PROGRESS) (dict_values db))) +
         (int (length (filter (\<lambda>t. status t = Some COMPLETED) (dict_values db))) +
          int (length (filter (\<lambda>t. status t = Some CANCELLED) (dict_values db))))) =
         int (length db)"
      using status_counts_sum [OF st] len by linarith
    have p_sum: "int (length (filter (\<lambda>t. priority t = Some LOW) (dict_values db))) +
         (int (length (filter (\<lambda>t. priority t = Some MEDIUM) (dict_values db))) +
         (int (length (filter (\<lambda>t. priority t = Some HIGH) (dict_values db))) +
          int (length (filter (\<lambda>t. priority t = Some URGENT) (dict_values db))))) =
         int (length db)"
      using priority_counts_sum [OF pr] len by linarith
    show ?thesis
      unfolding get_statistics_eval using s_sum p_sum by simp
  qed
  from keys sums show ?thesis by blast
qed

section \<open>Creating: validation\<close>

lemma TaskStatus_of_value_None:
  "TaskStatus_of_value s = None \<longleftrightarrow>
     s \<notin> set [''pending'', ''in-progress'', ''completed'', ''cancelled'']"
  by (auto simp: TaskStatus_of_value_def TaskStatus_members_def)

lemma TaskPriority_of_value_None:
  "TaskPriority_of_value s = None \<longleftrightarrow> s \<notin> set [''low'', ''medium'', ''high'', ''urgent'']"
  by (auto simp: TaskPriority_of_value_def TaskPriority_members_def)

lemma create_title_None:
  "create_title w = None \<longleftrightarrow>
     w = Absent \<or> w = Null \<or> w = Wrong \<or> (\<exists>s. w = Val s \<and> (s = [] \<or> 200 < length s))"
  by (cases w) (auto simp: Suc_le_eq)

lemma create_description_None:
  "create_description w = None \<longleftrightarrow> w = Wrong \<or> (\<exists>s. w = Val s \<and> 1000 < length s)"
  by (cases w) auto

lemma create_status_None:
  "create_status w = None \<longleftrightarrow>
     w = Null \<or> w = Wrong \<or>
     (\<exists>s. w = Val s \<and> s \<notin> set [''pending'', ''in-progress'', ''completed'', ''cancelled''])"
  by (cases w) (simp_all add: TaskStatus_of_value_None)

lemma create_priority_None:
  "create_priority w = None \<longleftrightarrow>
     w = Null \<or> w = Wrong \<or>
     (\<exists>s. w = Val s \<and> s \<notin> set [''low'', ''medium'', ''high'', ''urgent''])"
  by (cases w) (simp_all add: TaskPriority_of_value_None)

lemma create_due_date_None: "create_due_date w = None \<longleftrightarrow> w = Wrong"
  by (cases w) auto

lemma validate_TaskCreate_rejects:
  "validate_TaskCreate b = Inl RequestValidationError \<longleftrightarrow>
     create_title (b_title b) = None \<or> create_description (b_description b) = None \<or>
     create_status (b_status b) = None \<or> create_priority (b_priority b) = None \<or>
     create_due_date (b_due_date b) = None"
  by (auto simp: validate_TaskCreate_def split: option.splits)

lemma post_task_rejects:
  "fst (post_task db now uuid_hex b) = Inl RequestValidationError \<longleftrightarrow>
     validate_TaskCreate b = Inl RequestValidationError"
  by (auto simp: post_task_def create_task_def Let_def validate_TaskCreate_def
      split: sum.splits option.splits)

lemma post_task_rejected_store:
  "validate_TaskCreate b = Inl RequestValidationError \<Longrightarrow> snd (post_task db now uuid_hex b) = db"
  by (simp add: post_task_def)

text \<open>
  C8, amended. A create request is rejected with a validation error exactly when the
  specification's condition holds (title missing, empty or longer than 200 characters,
  description longer than 1000, status or priority outside its enum) or a field has a
  value of the wrong kind: a title or description that is not a string, a status or
  priority that is \<^verbatim>\<open>null\<close> or not a string, a \<^verbatim>\<open>due_date\<close> that is not a datetime. A
  rejected request leaves the store, and so its size, as it was.
\<close>

theorem post_task_rejects_iff:
  "(fst (post_task db now uuid_hex b) = Inl RequestValidationError \<longleftrightarrow>
      spec_create_rejects b \<or> b_title b = Wrong \<or> b_description b = Wrong \<or>
      b_status b = Null \<or> b_status b = Wrong \<or>
      b_priority b = Null \<or> b_priority b = Wrong \<or> b_due_date b = Wrong) \<and>
   (fst (post_task db now uuid_hex b) = Inl RequestValidationError \<longrightarrow>
      snd (post_task db now uuid_hex b) = db \<and>
      length (snd (post_task db now uuid_hex b)) = length db)"
proof -
  have "validate_TaskCreate b = Inl RequestValidationError \<longleftrightarrow>
          spec_create_rejects b \<or> b_title b = Wrong \<or> b_description b = Wrong \<or>
          b_status b = Null \<or> b_status b = Wrong \<or>
          b_priority b = Null \<or> b_priority b = Wrong \<or> b_due_date b = Wrong"
    unfolding validate_TaskCreate_rejects create_title_None create_description_None
      create_status_None create_priority_None create_due_date_None spec_create_rejects_def
    by blast
  then show ?thesis
    unfolding post_task_rejects using post_task_rejected_store by auto
qed

theorem post_task_rejects_iff_witness:
  "fst (post_task init_db (2025, 2, 1, 12, 0, 0, 0) uuid_hex_a bad_due_date_body) =
     Inl RequestValidationError \<and>
   b_due_date bad_due_date_body = Wrong \<and>
   snd (post_task init_db (2025, 2, 1, 12, 0, 0, 0) uuid_hex_a bad_due_date_body) = init_db \<and>
   length (snd (post_task init_db (2025, 2, 1, 12, 0, 0, 0) uuid_hex_a bad_due_date_body)) = 3"
proof -
  have wrong: "b_due_date bad_due_date_body = Wrong"
    by (simp add: bad_due_date_body_def)
  have len: "length init_db = 3"
    by (simp add: init_db_eval sample_tasks_def)
  from post_task_rejects_iff [of init_db "(2025, 2, 1, 12, 0, 0, 0)" uuid_hex_a bad_due_date_body]
  show ?thesis using wrong len by simp
qed

text \<open>
  C8 as stated fails: the body \<^verbatim>\<open>{"title": "Test", "due_date": "not-a-date"}\<close> is rejected,
  and none of the conditions the claim lists holds of it.
\<close>

theorem bad_due_date_rejected_counterexample:
  "fst (post_task init_db (2025, 2, 1, 12, 0, 0, 0) uuid_hex_a bad_due_date_body) =
     Inl RequestValidationError \<and>
   \<not> spec_create_rejects bad_due_date_body"
  by (simp add: post_task_def validate_TaskCreate_def bad_due_date_body_def
      spec_create_rejects_def)

section \<open>Creating: ids\<close>

lemma list_all_dict_set:
  "list_all P d \<Longrightarrow> P (k, v) \<Longrightarrow> list_all P (dict_set k v d)"
  by (induction d) auto

lemma keyed_dict_set:
  assumes "keyed db" and "Task_id t = k"
  shows "keyed (dict_set k t db)"
  using assms unfolding keyed_def
  by (simp add: distinct_dict_set list_all_dict_set)

lemma keyed_dict_pop: "keyed db \<Longrightarrow> keyed (dict_pop k db)"
  unfolding keyed_def dict_pop_def
  by (simp add: distinct_map_filter list_all_iff)

lemma keyed_lookup: "keyed db \<Longrightarrow> map_of db k = Some t \<Longrightarrow> Task_id t = k"
  unfolding keyed_def by (auto simp: list_all_iff dest!: map_of_SomeD)

lemma keyed_init_db: "keyed init_db"
  by (simp add: keyed_def init_db_eval sample_tasks_def)

lemma keyed_create_task: "keyed db \<Longrightarrow> keyed (snd (create_task db now h task))"
  by (simp add: create_task_def Let_def keyed_dict_set)

lemma keyed_post_task: "keyed db \<Longrightarrow> keyed (snd (post_task db now h b))"
  by (cases "validate_TaskCreate b") (simp_all add: post_task_def keyed_create_task)

lemma keyed_update_task:
  assumes "keyed db"
  shows "keyed (snd (update_task db now k u))"
proof (cases "map_of db k")
  case None
  then have "\<not> dict_contains k db" by (simp add: dict_contains_map_of)
  with assms show ?thesis by (simp add: update_task_def)
next
  case (Some old)
  have "Task_id (model_copy old u now) = k"
    using keyed_lookup [OF assms Some] by (simp add: model_copy_def)
  with assms show ?thesis
    unfolding update_task_present [OF Some] by (simp add: keyed_dict_set)
qed

lemma keyed_put_task: "keyed db \<Longrightarrow> keyed (snd (put_task db now k b))"
  by (cases "validate_TaskUpdate b") (simp_all add: put_task_def keyed_update_task)

lemma keyed_delete_task:
  assumes "keyed db"
  shows "keyed (snd (delete_task db k))"
proof (cases "map_of db k")
  case None
  then have "\<not> dict_contains k db" by (simp add: dict_contains_map_of)
  with assms show ?thesis by (simp add: delete_task_def)
next
  case (Some t)
  from present_lookup [OF Some] assms show ?thesis
    by (simp add: delete_task_def keyed_dict_pop)
qed

lemma reachable_keyed: "reachable db \<Longrightarrow> keyed db"
  by (induction rule: reachable.induct)
    (simp_all add: keyed_init_db keyed_post_task keyed_put_task keyed_delete_task)

lemma dict_set_fresh_effects:
  assumes fresh: "k \<notin> set (map fst d)"
  shows "length (dict_set k v d) = length d + 1"
    and "take (length d) (dict_set k v d) = d"
    and "map_of (dict_set k v d) k = Some v"
    and "\<forall>k' \<in> set (map fst d). map_of (dict_set k v d) k' = map_of d k'"
proof -
  show "length (dict_set k v d) = length d + 1"
    and "take (length d) (dict_set k v d) = d"
    by (simp_all add: dict_set_fresh [OF fresh])
  show "map_of (dict_set k v d) k = Some v"
    by (simp add: map_of_dict_set)
  show "\<forall>k' \<in> set (map fst d). map_of (dict_set k v d) k' = map_of d k'"
    using fresh by (auto simp: map_of_dict_set)
qed

text \<open>
  C6, amended. In every reachable store no key occurs twice and every task is stored
  under its own id. When the id \<^verbatim>\<open>create_task\<close> generates, \<^verbatim>\<open>task-\<close> and the first
  eight digits of the uuid, is not yet a key, the store grows by exactly one: the new
  record, stamped with the clock reading, is appended under that id and every record
  that was there stays in place, unchanged.
\<close>

theorem create_task_fresh_id_inserts:
  "(reachable db \<longrightarrow>
      distinct (map fst db) \<and> list_all (\<lambda>p. Task_id (snd p) = fst p) db) \<and>
   (''task-'' @ take 8 uuid_hex \<notin> set (map fst db) \<longrightarrow>
      length (snd (create_task db now uuid_hex task)) = length db + 1 \<and>
      take (length db) (snd (create_task db now uuid_hex task)) = db \<and>
      (\<exists>new. map_of (snd (create_task db now uuid_hex task)) (''task-'' @ take 8 uuid_hex)
                = Some new \<and>
              fst (create_task db now uuid_hex task) =
                Inr \<lparr>tr_success = True, tr_message = ''Task created successfully'',
                     tr_data = new\<rparr> \<and>
              Task_id new = ''task-'' @ take 8 uuid_hex \<and>
              created_at new = now \<and> updated_at new = now) \<and>
      (\<forall>k \<in> set (map fst db). map_of (snd (create_task db now uuid_hex task)) k = map_of db k))"
proof (intro conjI impI)
  assume "reachable db"
  then have "keyed db" by (rule reachable_keyed)
  then show "distinct (map fst db)" and "list_all (\<lambda>p. Task_id (snd p) = fst p) db"
    by (simp_all add: keyed_def)
next
  define k where "k = ''task-'' @ take 8 uuid_hex"
  define new where "new = \<lparr>Task_id = k, title = Some (c_title task),
                description = c_description task, status = Some (c_status task),
                priority = Some (c_priority task), due_date = c_due_date task,
                created_at = now, updated_at = now\<rparr>"
  assume "''task-'' @ take 8 uuid_hex \<notin> set (map fst db)"
  then have fresh: "k \<notin> set (map fst db)"
    unfolding k_def .
  have eq: "create_task db now uuid_hex task =
              (Inr \<lparr>tr_success = True, tr_message = ''Task created successfully'',
                    tr_data = new\<rparr>, dict_set k new db)"
    unfolding create_task_def Let_def new_def k_def by (rule refl)
  note fx = dict_set_fresh_effects [OF fresh, of new]
  show "length (snd (create_task db now uuid_hex task)) = length db + 1"
    unfolding eq snd_conv by (rule fx(1))
  show "take (length db) (snd (create_task db now uuid_hex task)) = db"
    unfolding eq snd_conv by (rule fx(2))
  have "Task_id new = k \<and> created_at new = now \<and> updated_at new = now"
    by (simp add: new_def)
  with fx(3)
  show "\<exists>new. map_of (snd (create_task db now uuid_hex task)) (''task-'' @ take 8 uuid_hex)
                = Some new \<and>
              fst (create_task db now uuid_hex task) =
                Inr \<lparr>tr_success = True, tr_message = ''Task created successfully'',
                     tr_data = new\<rparr> \<and>
              Task_id new = ''task-'' @ take 8 uuid_hex \<and>
              created_at new = now \<and> updated_at new = now"
    unfolding eq snd_conv fst_conv k_def [symmetric] by blast
  show "\<forall>k \<in> set (map fst db). map_of (snd (create_task db now uuid_hex task)) k = map_of db k"
    unfolding eq snd_conv by (rule fx(4))
qed

lemma uuid_hex_a_ok: "is_uuid4_hex uuid_hex_a"
  by (simp add: is_uuid4_hex_def uuid_hex_a_def)

lemma uuid_hex_b_ok: "is_uuid4_hex uuid_hex_b"
  by (simp add: is_uuid4_hex_def uuid_hex_b_def)

lemma fresh_in_seed: "''task-'' @ take 8 uuid_hex_a \<notin> set (map fst init_db)"
  by (simp add: uuid_hex_a_def init_db_eval sample_tasks_def)

theorem create_task_fresh_id_inserts_witness:
  "reachable init_db \<and>
   ''task-'' @ take 8 uuid_hex_a \<notin> set (map fst init_db) \<and>
   distinct (map fst init_db) \<and>
   length (snd (create_task init_db (2025, 2, 1, 12, 0, 0, 0) uuid_hex_a
      \<lparr>c_title = ''Minimal Task'', c_description = None, c_status = PENDING,
       c_priority = MEDIUM, c_due_date = None\<rparr>)) = 4 \<and>
   take 3 (snd (create_task init_db (2025, 2, 1, 12, 0, 0, 0) uuid_hex_a
      \<lparr>c_title = ''Minimal Task'', c_description = None, c_status = PENDING,
       c_priority = MEDIUM, c_due_date = None\<rparr>)) = init_db"
proof -
  have len: "length init_db = 3"
    by (simp add: init_db_eval sample_tasks_def)
  from create_task_fresh_id_inserts [of init_db uuid_hex_a "(2025, 2, 1, 12, 0, 0, 0)"
      "\<lparr>c_title = ''Minimal Task'', c_description = None, c_status = PENDING,
        c_priority = MEDIUM, c_due_date = None\<rparr>"]
  show ?thesis
    using reachable.seed fresh_in_seed len by simp
qed

lemma collision_db_eval:
  "collision_db = init_db @
     [(''task-0a1b2c3d'',
       \<lparr>Task_id = ''task-0a1b2c3d'', title = Some ''Minimal Task'', description = None,
        status = Some PENDING, priority = Some MEDIUM, due_date = None,
        created_at = (2025, 2, 1, 12, 0, 0, 0), updated_at = (2025, 2, 1, 12, 0, 0, 0)\<rparr>)]"
  by (simp add: collision_db_def post_task_def validate_TaskCreate_def minimal_body_def
      create_task_def Let_def uuid_hex_a_def init_db_eval sample_tasks_def
      TaskStatus_of_value_def TaskPriority_of_value_def)

lemma collision_db_reachable: "reachable collision_db"
  unfolding collision_db_def by (rule reachable.create [OF reachable.seed uuid_hex_a_ok])

text \<open>
  C6 as stated fails: \<^verbatim>\<open>create_task\<close> assigns without a test for the key, so a second
  uuid with the same first eight digits replaces the record of the first and the size
  of the store stays what it was.
\<close>

theorem create_collision_counterexample:
  "reachable collision_db \<and> is_uuid4_hex uuid_hex_b \<and>
   length (snd (post_task collision_db (2025, 2, 1, 12, 30, 0, 0) uuid_hex_b other_body))
     \<noteq> length collision_db + 1 \<and>
   map (title \<circ> snd) collision_db =
     [Some ''Setup Development Environment'', Some ''Create API Endpoints'',
      Some ''Write Unit Tests'', Some ''Minimal Task''] \<and>
   map (title \<circ> snd)
     (snd (post_task collision_db (2025, 2, 1, 12, 30, 0, 0) uuid_hex_b other_body)) =
     [Some ''Setup Development Environment'', Some ''Create API Endpoints'',
      Some ''Write Unit Tests'', Some ''Test Task'']"
proof -
  have "snd (post_task collision_db (2025, 2, 1, 12, 30, 0, 0) uuid_hex_b other_body) =
          init_db @
            [(''task-0a1b2c3d'',
              \<lparr>Task_id = ''task-0a1b2c3d'', title = Some ''Test Task'',
               description = Some ''This is a test task'',
               status = Some PENDING, priority = Some MEDIUM, due_date = None,
               created_at = (2025, 2, 1, 12, 30, 0, 0),
               updated_at = (2025, 2, 1, 12, 30, 0, 0)\<rparr>)]"
    by (simp add: collision_db_eval post_task_def validate_TaskCreate_def other_body_def
        create_task_def Let_def uuid_hex_b_def init_db_eval sample_tasks_def
        TaskStatus_of_value_def TaskPriority_of_value_def TaskStatus_members_def
        TaskPriority_members_def)
  then show ?thesis
    using collision_db_reachable uuid_hex_b_ok
    by (simp add: collision_db_eval init_db_eval sample_tasks_def)
qed

section \<open>Updating: what is stored is not validated\<close>

lemma null_title_valid:
  "validate_TaskUpdate null_title_body =
     Inr \<lparr>u_title = Some None, u_description = None, u_status = None, u_priority = None,
          u_due_date = None\<rparr>"
  by (simp add: validate_TaskUpdate_def null_title_body_def)

text \<open>
  C2 fails on the code. \<^verbatim>\<open>PUT /api/tasks/task-001\<close> with the body \<^verbatim>\<open>{"title": null}\<close>
  passes the validation of \<^verbatim>\<open>TaskUpdate\<close>, and \<^verbatim>\<open>update_task\<close> stores the copy with
  no validation: the reachable store holds a task whose title is \<^verbatim>\<open>None\<close>, against the
  field constraints, and a search over that store raises \<^verbatim>\<open>AttributeError\<close>.
\<close>

theorem update_null_title_stores_invalid_task:
  "reachable (snd (put_task init_db (2025, 2, 1, 12, 0, 0, 0) ''task-001'' null_title_body)) \<and>
   map (\<lambda>t. (Task_id t, title t))
     (dict_values (snd (put_task init_db (2025, 2, 1, 12, 0, 0, 0) ''task-001'' null_title_body))) =
     [(''task-001'', None), (''task-002'', Some ''Create API Endpoints''),
      (''task-003'', Some ''Write Unit Tests'')] \<and>
   \<not> list_all valid_Task
     (dict_values (snd (put_task init_db (2025, 2, 1, 12, 0, 0, 0) ''task-001'' null_title_body))) \<and>
   fst (get_tasks str_lower (snd (put_task init_db (2025, 2, 1, 12, 0, 0, 0) ''task-001'' null_title_body))
          None None (Some ''api'') 100 0) = Inl AttributeError"
proof -
  have r: "reachable (snd (put_task init_db (2025, 2, 1, 12, 0, 0, 0) ''task-001'' null_title_body))"
    by (rule reachable.update [OF reachable.seed])
  have v: "dict_values (snd (put_task init_db (2025, 2, 1, 12, 0, 0, 0) ''task-001'' null_title_body)) =
          [(sample_tasks ! 0)\<lparr>title := None, updated_at := (2025, 2, 1, 12, 0, 0, 0)\<rparr>,
           sample_tasks ! 1, sample_tasks ! 2]"
    unfolding put_task_valid [OF null_title_valid] update_task_present [OF seed_lookup_001]
    by (simp add: model_copy_def init_db_eval sample_tasks_def dict_values_def)
  have g: "fst (get_tasks str_lower (snd (put_task init_db (2025, 2, 1, 12, 0, 0, 0) ''task-001'' null_title_body))
          None None (Some ''api'') 100 0) = Inl AttributeError"
    unfolding get_tasks_def Let_def v by (simp add: search_keeps_def sample_tasks_def)
  show ?thesis
    using r g unfolding v by (simp add: sample_tasks_def valid_Task_def)
qed

section \<open>What the stored \<^verbatim>\<open>None\<close> does to listing and statistics\<close>

lemma untitled_db_reachable: "reachable untitled_db"
  unfolding untitled_db_def by (rule reachable.update [OF reachable.seed])

lemma untitled_db_values:
  "dict_values untitled_db =
     [(sample_tasks ! 0)\<lparr>title := None, updated_at := (2025, 2, 1, 12, 0, 0, 0)\<rparr>,
      sample_tasks ! 1, sample_tasks ! 2]"
  unfolding untitled_db_def put_task_valid [OF null_title_valid]
    update_task_present [OF seed_lookup_001]
  by (simp add: model_copy_def init_db_eval sample_tasks_def dict_values_def)

text \<open>
  C1 fails on the code, by the defect of C2. After \<^verbatim>\<open>PUT /api/tasks/task-001\<close> with
  \<^verbatim>\<open>{"title": null}\<close> the store holds a task whose title is \<^verbatim>\<open>None\<close>, and a listing
  with a search string that is not empty returns no page: \<^verbatim>\<open>t.title.lower()\<close> raises
  \<^verbatim>\<open>AttributeError\<close>, whatever the other filters and the page bounds.
\<close>

theorem get_tasks_raises_on_null_title:
  "reachable untitled_db \<and>
   get_tasks str_lower untitled_db None None (Some ''api'') 100 0 =
     (Inl AttributeError, untitled_db) \<and>
   get_tasks str_lower untitled_db (Some COMPLETED) (Some HIGH) (Some ''setup'') 1 0 =
     (Inl AttributeError, untitled_db)"
proof -
  have a: "get_tasks str_lower untitled_db None None (Some ''api'') 100 0 =
             (Inl AttributeError, untitled_db)"
    unfolding get_tasks_def Let_def untitled_db_values
    by (simp add: search_keeps_def sample_tasks_def)
  have b: "get_tasks str_lower untitled_db (Some COMPLETED) (Some HIGH) (Some ''setup'') 1 0 =
             (Inl AttributeError, untitled_db)"
    unfolding get_tasks_def Let_def untitled_db_values
    by (simp add: search_keeps_def sample_tasks_def)
  from untitled_db_reachable a b show ?thesis by simp
qed

lemma null_texts_valid:
  "validate_TaskUpdate null_texts_body =
     Inr \<lparr>u_title = Some None, u_description = Some None, u_status = None, u_priority = None,
          u_due_date = None\<rparr>"
  by (simp add: validate_TaskUpdate_def null_texts_body_def)

lemma no_texts_db_reachable: "reachable no_texts_db"
  unfolding no_texts_db_def by (rule reachable.update [OF reachable.seed])

lemma no_texts_db_values:
  "dict_values no_texts_db =
     [(sample_tasks ! 0)\<lparr>title := None, description := None,
                         updated_at := (2025, 2, 1, 12, 0, 0, 0)\<rparr>,
      sample_tasks ! 1, sample_tasks ! 2]"
  unfolding no_texts_db_def put_task_valid [OF null_texts_valid]
    update_task_present [OF seed_lookup_001]
  by (simp add: model_copy_def init_db_eval sample_tasks_def dict_values_def)

text \<open>
  C7 fails on the code, by the defect of C2. After \<^verbatim>\<open>PUT /api/tasks/task-001\<close> with
  \<^verbatim>\<open>{"title": null, "description": null}\<close>, the listing for the empty search string,
  for which \<^verbatim>\<open>if search:\<close> applies no filter, returns task-001, which has neither a
  title nor a description to contain anything.
\<close>

theorem empty_search_returns_task_without_texts:
  "reachable no_texts_db \<and>
   get_tasks str_lower no_texts_db None None (Some []) 100 0 =
     (Inr \<lparr>tl_success = True, tl_count = 3,
           tl_data =
             [(sample_tasks ! 0)\<lparr>title := None, description := None,
                                 updated_at := (2025, 2, 1, 12, 0, 0, 0)\<rparr>,
              sample_tasks ! 1, sample_tasks ! 2]\<rparr>, no_texts_db) \<and>
   Task_id ((sample_tasks ! 0)\<lparr>title := None, description := None,
                               updated_at := (2025, 2, 1, 12, 0, 0, 0)\<rparr>) = ''task-001'' \<and>
   \<not> field_contains_ci str_lower []
       (title ((sample_tasks ! 0)\<lparr>title := None, description := None,
                                   updated_at := (2025, 2, 1, 12, 0, 0, 0)\<rparr>)) \<and>
   \<not> field_contains_ci str_lower []
       (description ((sample_tasks ! 0)\<lparr>title := None, description := None,
                                         updated_at := (2025, 2, 1, 12, 0, 0, 0)\<rparr>))"
proof -
  have g: "get_tasks str_lower no_texts_db None None (Some []) 100 0 =
     (Inr \<lparr>tl_success = True, tl_count = 3,
           tl_data =
             [(sample_tasks ! 0)\<lparr>title := None, description := None,
                                 updated_at := (2025, 2, 1, 12, 0, 0, 0)\<rparr>,
              sample_tasks ! 1, sample_tasks ! 2]\<rparr>, no_texts_db)"
    unfolding get_tasks_def Let_def no_texts_db_values
    by (simp add: py_slice_def slice_bound_def)
  from no_texts_db_reachable g show ?thesis
    by (simp add: field_contains_ci_def sample_tasks_def)
qed

lemma null_enums_valid:
  "validate_TaskUpdate null_enums_body =
     Inr \<lparr>u_title = None, u_description = None, u_status = Some None, u_priority = Some None,
          u_due_date = None\<rparr>"
  by (simp add: validate_TaskUpdate_def null_enums_body_def)

lemma no_enums_db_reachable: "reachable no_enums_db"
  unfolding no_enums_db_def by (rule reachable.update [OF reachable.seed])

lemma no_enums_db_values:
  "dict_values no_enums_db =
     [(sample_tasks ! 0)\<lparr>status := None, priority := None,
                         updated_at := (2025, 2, 1, 12, 0, 0, 0)\<rparr>,
      sample_tasks ! 1, sample_tasks ! 2]"
  unfolding no_enums_db_def put_task_valid [OF null_enums_valid]
    update_task_present [OF seed_lookup_001]
  by (simp add: model_copy_def init_db_eval sample_tasks_def dict_values_def)

text \<open>
  C9 fails on the code, by the defect of C2. After \<^verbatim>\<open>PUT /api/tasks/task-001\<close> with
  \<^verbatim>\<open>{"status": null, "priority": null}\<close>, task-001 is counted in \<^verbatim>\<open>total_tasks\<close> and
  under no key of either dictionary: the total is 3, and each group of counts sums to 2.
\<close>

theorem statistics_sums_miss_null_enums:
  "reachable no_enums_db \<and>
   total_tasks (fst (get_statistics no_enums_db)) = 3 \<and>
   by_status (fst (get_statistics no_enums_db)) =
     [(''pending'', 1), (''in-progress'', 1), (''completed'', 0), (''cancelled'', 0)] \<and>
   sum_list (map snd (by_status (fst (get_statistics no_enums_db)))) = 2 \<and>
   by_priority (fst (get_statistics no_enums_db)) =
     [(''low'', 0), (''medium'', 1), (''high'', 1), (''urgent'', 0)] \<and>
   sum_list (map snd (by_priority (fst (get_statistics no_enums_db)))) = 2"
proof -
  have len: "length no_enums_db = 3"
    using arg_cong [OF no_enums_db_values, of length] by (simp add: dict_values_def)
  have s: "fst (get_statistics no_enums_db) =
     \<lparr>total_tasks = 3,
      by_status = [(''pending'', 1), (''in-progress'', 1), (''completed'', 0), (''cancelled'', 0)],
      by_priority = [(''low'', 0), (''medium'', 1), (''high'', 1), (''urgent'', 0)]\<rparr>"
    unfolding get_statistics_eval no_enums_db_values len
    by (simp add: sample_tasks_def)
  from no_enums_db_reachable show ?thesis
    unfolding s by simp
qed

end
